theory Spec2Isabelle
  imports Complex_Main "HOL-Library.Word" "HOL-Library.Char_ord" "HOL-Library.List_Lexorder"
begin

unbundle bit_operations_syntax

section \<open>SHA-512, the digest behind \<open>crypto.subtle.digest('SHA-512', _)\<close>\<close>

text \<open>
  \<open>src/utils/crypto.ts\<close> hands the UTF-8 bytes of a string (or the bytes of a file)
  to the platform's SHA-512 and renders the 64 digest bytes as lower-case hex, two
  characters per byte.  The digest is the function of FIPS 180-4; it is written out
  here so that seals can be computed on concrete inputs.  A 64-bit word is an
  \<open>int\<close> in \<open>[0, 2^64)\<close>; every addition is reduced with \<open>take64\<close>.
  Strings of the program are modelled as their UTF-8 byte sequences, one \<open>char\<close>
  per byte, which is what \<open>TextEncoder.encode\<close> feeds to the digest.
\<close>

type_synonym w64 = int

text \<open>The round constants are the first 64 bits of the fractional parts of the cube
  roots of the first eighty primes, and the initial state those of the square roots of
  the first eight primes; they are written in decimal.\<close>

definition K512 :: "w64 list" where
  "K512 = [
     4794697086780616226, 8158064640168781261, 13096744586834688815,
     16840607885511220156, 4131703408338449720, 6480981068601479193,
     10538285296894168987, 12329834152419229976, 15566598209576043074,
     1334009975649890238, 2608012711638119052, 6128411473006802146,
     8268148722764581231, 9286055187155687089, 11230858885718282805,
     13951009754708518548, 16472876342353939154, 17275323862435702243,
     1135362057144423861, 2597628984639134821, 3308224258029322869,
     5365058923640841347, 6679025012923562964, 8573033837759648693,
     10970295158949994411, 12119686244451234320, 12683024718118986047,
     13788192230050041572, 14330467153632333762, 15395433587784984357,
     489312712824947311, 1452737877330783856, 2861767655752347644,
     3322285676063803686, 5560940570517711597, 5996557281743188959,
     7280758554555802590, 8532644243296465576, 9350256976987008742,
     10552545826968843579, 11727347734174303076, 12113106623233404929,
     14000437183269869457, 14369950271660146224, 15101387698204529176,
     15463397548674623760, 17586052441742319658, 1182934255886127544,
     1847814050463011016, 2177327727835720531, 2830643537854262169,
     3796741975233480872, 4115178125766777443, 5681478168544905931,
     6601373596472566643, 7507060721942968483, 8399075790359081724,
     8693463985226723168, 9568029438360202098, 10144078919501101548,
     10430055236837252648, 11840083180663258601, 13761210420658862357,
     14299343276471374635, 14566680578165727644, 15097957966210449927,
     16922976911328602910, 17689382322260857208, 500013540394364858,
     748580250866718886, 1242879168328830382, 1977374033974150939,
     2944078676154940804, 3659926193048069267, 4368137639120453308,
     4836135668995329356, 5532061633213252278, 6448918945643986474,
     6902733635092675308, 7801388544844847127]"

definition H512 :: "w64 list" where
  "H512 = [
     7640891576956012808, 13503953896175478587, 4354685564936845355,
     11912009170470909681, 5840696475078001361, 11170449401992604703,
     2270897969802886507, 6620516959819538809]"

definition take64 :: "w64 \<Rightarrow> w64" where
  "take64 x = x AND 18446744073709551615"

definition add64 :: "w64 \<Rightarrow> w64 \<Rightarrow> w64" where
  "add64 x y = take64 (x + y)"

definition not64 :: "w64 \<Rightarrow> w64" where
  "not64 x = x XOR 18446744073709551615"

definition rotr :: "nat \<Rightarrow> w64 \<Rightarrow> w64" where
  "rotr n x = drop_bit n x OR push_bit (64 - n) (take_bit n x)"

definition shr :: "nat \<Rightarrow> w64 \<Rightarrow> w64" where
  "shr n x = drop_bit n x"

definition Ch :: "w64 \<Rightarrow> w64 \<Rightarrow> w64 \<Rightarrow> w64" where
  "Ch x y z = (x AND y) XOR (not64 x AND z)"

definition Maj :: "w64 \<Rightarrow> w64 \<Rightarrow> w64 \<Rightarrow> w64" where
  "Maj x y z = (x AND y) XOR (x AND z) XOR (y AND z)"

definition Sigma0 :: "w64 \<Rightarrow> w64" where
  "Sigma0 x = rotr 28 x XOR rotr 34 x XOR rotr 39 x"

definition Sigma1 :: "w64 \<Rightarrow> w64" where
  "Sigma1 x = rotr 14 x XOR rotr 18 x XOR rotr 41 x"

definition sigma0 :: "w64 \<Rightarrow> w64" where
  "sigma0 x = rotr 1 x XOR rotr 8 x XOR shr 7 x"

definition sigma1 :: "w64 \<Rightarrow> w64" where
  "sigma1 x = rotr 19 x XOR rotr 61 x XOR shr 6 x"

text \<open>The message schedule is kept newest word first, so that for the word with
  index \<open>t\<close> being computed \<open>ws ! 1\<close> is the word \<open>t - 2\<close>, \<open>ws ! 6\<close> the word
  \<open>t - 7\<close>, \<open>ws ! 14\<close> the word \<open>t - 15\<close> and \<open>ws ! 15\<close> the word \<open>t - 16\<close>.\<close>

definition schedule_step :: "w64 list \<Rightarrow> w64 list" where
  "schedule_step ws =
     add64 (add64 (add64 (sigma1 (ws ! 1)) (ws ! 6)) (sigma0 (ws ! 14))) (ws ! 15) # ws"

definition schedule :: "w64 list \<Rightarrow> w64 list" where
  "schedule blk = rev (foldl (\<lambda>ws t. schedule_step ws) (rev blk) [16..<80])"

definition shift_in :: "w64 list \<Rightarrow> w64 \<Rightarrow> w64 \<Rightarrow> w64 list" where
  "shift_in st t1 t2 =
     add64 t1 t2 # take 3 st @ add64 (st ! 3) t1 # take 3 (drop 4 st)"

definition round_step :: "w64 list \<Rightarrow> w64 \<times> w64 \<Rightarrow> w64 list" where
  "round_step st kw =
     shift_in st
       (add64 (add64 (add64 (add64 (st ! 7) (Sigma1 (st ! 4)))
          (Ch (st ! 4) (st ! 5) (st ! 6))) (fst kw)) (snd kw))
       (add64 (Sigma0 (st ! 0)) (Maj (st ! 0) (st ! 1) (st ! 2)))"

definition compress :: "w64 list \<Rightarrow> w64 list \<Rightarrow> w64 list" where
  "compress st blk = map2 add64 st (foldl round_step st (zip K512 (schedule blk)))"

definition be_bytes :: "nat \<Rightarrow> int \<Rightarrow> int list" where
  "be_bytes k n = map (\<lambda>i. drop_bit (8 * i) n mod 256) (rev [0..<k])"

definition be_word :: "int list \<Rightarrow> w64" where
  "be_word bs = foldl (\<lambda>a b. a * 256 + b) 0 bs"

definition pad :: "int list \<Rightarrow> int list" where
  "pad bs = bs @ [128] @ replicate ((239 - length bs mod 128) mod 128) 0
              @ be_bytes 16 (8 * int (length bs))"

definition blocks :: "int list \<Rightarrow> w64 list list" where
  "blocks m = map (\<lambda>i. map (\<lambda>j. be_word (take 8 (drop (128 * i + 8 * j) m))) [0..<16])
                [0..<length m div 128]"

definition sha512_bytes :: "int list \<Rightarrow> int list" where
  "sha512_bytes bs = concat (map (be_bytes 8) (foldl compress H512 (blocks (pad bs))))"

definition hexdigit :: "int \<Rightarrow> char" where
  "hexdigit d = ''0123456789abcdef'' ! nat d"

definition hex_byte :: "int \<Rightarrow> string" where
  "hex_byte b = [hexdigit (b div 16), hexdigit (b mod 16)]"

definition sha512 :: "string \<Rightarrow> string" where
  "sha512 data = concat (map hex_byte (sha512_bytes (map of_char data)))"

section \<open>Data model (\<open>src/types.ts\<close>, \<open>src/utils/storage.ts\<close>)\<close>

text \<open>
  Field names follow the source; a name that several interfaces share, or that HOL
  already uses, carries a suffix (\<open>_a\<close> artifact, \<open>_c\<close> custody entry, \<open>_f\<close> file,
  \<open>_r\<close> case record).  An optional field is an \<open>option\<close>.  The declared MIME type
  is an \<open>option\<close> too: the interface requires the field, but nothing checks at run time
  that an artifact handed to the engine has it, and the engine behaves differently
  when it is missing.  Timestamps are the integer milliseconds of \<open>Date.now()\<close>;
  coordinates are finite JavaScript numbers, taken as reals (every finite double is a
  rational).
\<close>

datatype EvidenceType = PHOTO | VIDEO | DOCUMENT | AUDIO | TEXT

record DeviceInfo =
  userAgent :: string
  platform :: string
  language :: string

record GeoLocation =
  lat :: real
  lng :: real
  accuracy :: real

record CustodyEntry =
  timestamp_c :: int
  action :: string
  actor :: string
  hash_c :: string
  location :: "GeoLocation option"
  notes_c :: "string option"

record File =
  name_f :: string
  type_f :: string
  bytes_f :: string

datatype Content = FileContent File | BlobContent string | TextContent string

record EvidenceArtifact =
  id_a :: string
  type_a :: EvidenceType
  content :: Content
  filename :: "string option"
  mimeType :: "string option"
  timestamp :: int
  gpsCoordinates :: "GeoLocation option"
  sessionLocation :: "GeoLocation option"
  deviceInfo :: DeviceInfo
  chainOfCustody :: "CustodyEntry list"
  cryptographicHash :: string
  previewUrl :: "string option"

record CaseRecord =
  id_r :: string
  name_r :: string
  timestamp_r :: int
  report_r :: string
  evidence_r :: "EvidenceArtifact list"
  caseHash :: string

section \<open>Case seal (\<open>saveCase\<close> in \<open>src/utils/storage.ts\<close>)\<close>

text \<open>
  \<open>saveCase\<close> joins the evidence hashes with the empty separator, hashes the report,
  and hashes the concatenation of the two strings.
\<close>

definition evidenceHashes :: "EvidenceArtifact list \<Rightarrow> string" where
  "evidenceHashes evidence = concat (map cryptographicHash evidence)"

definition caseSeal :: "string \<Rightarrow> EvidenceArtifact list \<Rightarrow> string" where
  "caseSeal report evidence = sha512 (evidenceHashes evidence @ sha512 report)"

text \<open>The seal as the specification words it: the concatenated evidence hashes are
  themselves digested before they are combined with the report digest.\<close>

definition spec_caseSeal :: "string \<Rightarrow> EvidenceArtifact list \<Rightarrow> string" where
  "spec_caseSeal report evidence =
     sha512 (sha512 (evidenceHashes evidence) @ sha512 report)"

section \<open>Strings\<close>

text \<open>
  \<open>s.substring(0, n)\<close> keeps the first \<open>n\<close> UTF-16 code units of \<open>s\<close>.  On the UTF-8
  bytes of \<open>s\<close> a character of one, two or three bytes is one unit and a character of
  four bytes is two (a surrogate pair).  Cutting between the two leaves a lone
  surrogate, which \<open>TextEncoder\<close> encodes as the replacement character.
\<close>

definition utf8_length :: "char \<Rightarrow> nat" where
  "utf8_length c =
     (if (of_char c :: nat) < 192 then 1
      else if (of_char c :: nat) < 224 then 2
      else if (of_char c :: nat) < 240 then 3
      else if (of_char c :: nat) < 248 then 4
      else 1)"

fun substring :: "nat \<Rightarrow> string \<Rightarrow> string" where
  "substring 0 s = []"
| "substring (Suc n) [] = []"
| "substring (Suc n) (c # cs) =
     (if utf8_length c = 4
      then (if n = 0 then [CHR 0xEF, CHR 0xBF, CHR 0xBD]
            else take 4 (c # cs) @ substring (n - 1) (drop 3 cs))
      else take (utf8_length c) (c # cs) @ substring n (drop (utf8_length c - 1) cs))"

section \<open>The platform\<close>

text \<open>
  What the browser supplies while one handler runs: the successive readings of the
  clock (\<open>Date.now()\<close>, \<open>new Date()\<close>), the locale's renderings of an instant, the
  rendering of a number by \<open>String(n)\<close>, fresh identifiers and object URLs, the
  QR encoder (\<open>None\<close> when it throws), the device descriptor, the text
  \<open>String(Object)\<close> of the native constructor, and the user's answer to
  \<open>window.confirm\<close>.  None of it is code of
  the repository, so every function of the program takes it as a parameter.
\<close>

record Platform =
  now :: "nat \<Rightarrow> int"
  toLocaleString :: "int \<Rightarrow> string"
  toLocaleDateString :: "int \<Rightarrow> string"
  toLocaleTimeString :: "int \<Rightarrow> string"
  numberToString :: "real \<Rightarrow> string"
  objectCtorToString :: string
  randomUUID :: "nat \<Rightarrow> string"
  createObjectURL :: "nat \<Rightarrow> string"
  toDataURL :: "string \<Rightarrow> string option"
  getDeviceInfo :: DeviceInfo
  confirm :: bool

text \<open>The platform as a handler sees it after \<open>k\<close> readings of the clock.\<close>

definition after_reads :: "nat \<Rightarrow> Platform \<Rightarrow> Platform" where
  "after_reads k env = env\<lparr>now := (\<lambda>i. now env (i + k))\<rparr>"

section \<open>The object store \<open>cases\<close> (IndexedDB, key path \<open>id\<close>)\<close>

text \<open>
  The store holds at most one record per key and lists its records in key order.
  \<open>put\<close> inserts a record, replacing the record that has the same key.  The
  persistence engine is outside the program: opening the database and its
  transactions are taken to succeed.
\<close>

fun put :: "CaseRecord \<Rightarrow> CaseRecord list \<Rightarrow> CaseRecord list" where
  "put r [] = [r]"
| "put r (c # cs) =
     (if id_r r = id_r c then r # cs
      else if id_r r < id_r c then r # c # cs
      else c # put r cs)"

definition getAll :: "CaseRecord list \<Rightarrow> CaseRecord list" where
  "getAll db = db"

definition get :: "CaseRecord list \<Rightarrow> string \<Rightarrow> CaseRecord option" where
  "get db k = find (\<lambda>c. id_r c = k) db"

definition saveCase ::
  "Platform \<Rightarrow> CaseRecord list \<Rightarrow> string \<Rightarrow> string \<Rightarrow> string \<Rightarrow> EvidenceArtifact list
     \<Rightarrow> CaseRecord \<times> CaseRecord list" where
  "saveCase env db caseId name report evidence =
     (let record = \<lparr>id_r = caseId,
                     name_r = (if name = [] then ''Case '' @ substring 8 caseId else name),
                     timestamp_r = now env 0,
                     report_r = report,
                     evidence_r = evidence,
                     caseHash = caseSeal report evidence\<rparr>
      in (record, put record db))"

definition loadCases :: "CaseRecord list \<Rightarrow> CaseRecord list" where
  "loadCases db = getAll db"

definition clearAllCases :: "CaseRecord list \<Rightarrow> CaseRecord list" where
  "clearAllCases db = []"

section \<open>JavaScript primitives the engine uses\<close>

text \<open>An uncaught exception of the source is a value of the model.  The only one
  the engine can raise is the \<open>TypeError\<close> of reading a property of \<open>undefined\<close>.\<close>

datatype js_error = TypeError

text \<open>\<open>xs[i]\<close> is \<open>undefined\<close> outside the array.\<close>

definition js_index :: "'a list \<Rightarrow> int \<Rightarrow> 'a option" where
  "js_index xs i = (if 0 \<le> i \<and> i < int (length xs) then Some (xs ! nat i) else None)"

text \<open>A template literal prints a missing string as \<open>undefined\<close>.\<close>

definition show_opt :: "string option \<Rightarrow> string" where
  "show_opt s = (case s of None \<Rightarrow> ''undefined'' | Some t \<Rightarrow> t)"

definition digit :: "nat \<Rightarrow> char" where
  "digit d = ''0123456789'' ! d"

text \<open>The decimal digits of a non-negative integer, as \<open>String(n)\<close> prints them.\<close>

function natToString :: "nat \<Rightarrow> string" where
  "natToString n =
     (if n < 10 then [digit n] else natToString (n div 10) @ [digit (n mod 10)])"
  by pat_completeness auto
termination
  by (relation "measure (\<lambda>n. n)") auto

declare natToString.simps [simp del]

definition startsWith :: "string \<Rightarrow> string \<Rightarrow> bool" where
  "startsWith s p = (take (length p) s = p)"

text \<open>\<open>s.split('.').pop()\<close>: what follows the last dot, or all of \<open>s\<close> without one.\<close>

definition lastSegment :: "string \<Rightarrow> string" where
  "lastSegment s = rev (takeWhile (\<lambda>c. c \<noteq> CHR ''.'') (rev s))"

text \<open>\<open>toLowerCase\<close> on the bytes of a string: the ASCII capitals are mapped, every
  other byte is kept.  JavaScript also maps capitals outside ASCII; none of them
  becomes a key of the extension table below, whose keys have no \<open>i\<close> and no \<open>k\<close>.\<close>

definition toLowerChar :: "char \<Rightarrow> char" where
  "toLowerChar c =
     (if CHR ''A'' \<le> c \<and> c \<le> CHR ''Z'' then char_of (of_char c + (32::nat)) else c)"

definition toLowerCase :: "string \<Rightarrow> string" where
  "toLowerCase s = map toLowerChar s"

text \<open>
  \<open>x.toFixed(f)\<close> for a finite \<open>x\<close> (ECMA-262, Number.prototype.toFixed): the sign is
  split off, a magnitude of \<open>10^21\<close> or more prints as \<open>String\<close> prints it, and otherwise
  the integer \<open>n\<close> nearest to \<open>x * 10^f\<close> is taken, the larger one on a tie, and printed
  with \<open>f\<close> digits after the point.
\<close>

definition pointed :: "nat \<Rightarrow> string \<Rightarrow> string" where
  "pointed f m =
     (if f = 0 then m
      else take (length m - f) m @ ''.'' @ drop (length m - f) m)"

definition zeroPadded :: "nat \<Rightarrow> string \<Rightarrow> string" where
  "zeroPadded f m =
     (if f \<noteq> 0 \<and> length m \<le> f then replicate (f + 1 - length m) CHR ''0'' @ m else m)"

definition toFixedAbs :: "Platform \<Rightarrow> nat \<Rightarrow> real \<Rightarrow> string" where
  "toFixedAbs env f x =
     (if 10 ^ 21 \<le> x then numberToString env x
      else pointed f (zeroPadded f (natToString (nat \<lfloor>x * 10 ^ f + 1 / 2\<rfloor>))))"

definition toFixed :: "Platform \<Rightarrow> nat \<Rightarrow> real \<Rightarrow> string" where
  "toFixed env f x = (if x < 0 then ''-'' @ toFixedAbs env f (- x) else toFixedAbs env f x)"

section \<open>The offline engine (\<open>src/services/geminiService.ts\<close>)\<close>

definition VERSION_STRING :: string where
  "VERSION_STRING = ''Verum Omnis v5.2.7''"

definition CONSTITUTION_HASH :: string where
  "CONSTITUTION_HASH = ''45f981b0f66421f8d83d61edea66bf15c9eb5b7663690dc9296ed555def0911''"

definition getLocalTime :: "Platform \<Rightarrow> int \<Rightarrow> string" where
  "getLocalTime env ts = toLocaleString env ts"

definition typeName :: "EvidenceType \<Rightarrow> string" where
  "typeName t = (case t of PHOTO \<Rightarrow> ''PHOTO'' | VIDEO \<Rightarrow> ''VIDEO''
                 | DOCUMENT \<Rightarrow> ''DOCUMENT'' | AUDIO \<Rightarrow> ''AUDIO'' | TEXT \<Rightarrow> ''TEXT'')"

subsection \<open>Brain 1: contradiction engine\<close>

definition mimeMap :: "(string \<times> string) list" where
  "mimeMap =
     [(''pdf'', ''application/pdf''),
      (''jpg'', ''image/jpeg''),
      (''jpeg'', ''image/jpeg''),
      (''png'', ''image/png''),
      (''txt'', ''text/plain''),
      (''mp4'', ''video/mp4''),
      (''mp3'', ''audio/mpeg''),
      (''wav'', ''audio/wav''),
      (''json'', ''application/json'')]"

text \<open>
  \<open>mimeMap[ext]\<close> reads a property of an object literal, so besides the nine entries
  it finds what the literal inherits from \<open>Object.prototype\<close>.  The extension is in
  lower case, which leaves \<open>constructor\<close> (the native constructor) and \<open>__proto__\<close>
  (the prototype object); both are truthy, and \<open>startsWith\<close> turns them into the
  strings given here.
\<close>

definition mimeMapLookup :: "Platform \<Rightarrow> string \<Rightarrow> string option" where
  "mimeMapLookup env ext =
     (case map_of mimeMap ext of
        Some m \<Rightarrow> Some m
      | None \<Rightarrow>
          if ext = ''constructor'' then Some (objectCtorToString env)
          else if ext = ''__proto__'' then Some ''[object Object]''
          else None)"

definition extension :: "EvidenceArtifact \<Rightarrow> string option" where
  "extension ev = map_option (\<lambda>f. toLowerCase (lastSegment f)) (filename ev)"

text \<open>One turn of the \<open>forEach\<close>: the state is the output so far and the counter
  \<open>contradictionsFound\<close>.  \<open>ev.mimeType.startsWith\<close> is reached only for an extension the
  table knows, and throws when the artifact has no MIME type.\<close>

definition brain1_step ::
  "Platform \<Rightarrow> string \<times> nat \<Rightarrow> EvidenceArtifact \<Rightarrow> js_error + string \<times> nat" where
  "brain1_step env acc ev =
     (case extension ev of
        None \<Rightarrow> Inr acc
      | Some ext \<Rightarrow>
          if ext = [] then Inr acc
          else (case mimeMapLookup env ext of
                  None \<Rightarrow> Inr acc
                | Some expected \<Rightarrow>
                    (case mimeType ev of
                       None \<Rightarrow> Inl TypeError
                     | Some mime \<Rightarrow>
                         if \<not> startsWith mime expected
                         then Inr (fst acc @ ''[CRITICAL] MIME/Extension Mismatch: ''
                                 @ show_opt (filename ev) @ '' (.'' @ ext @ '') identified as ''
                                 @ mime @ ''. Possible Tamper.\<newline>'',
                               snd acc + 1)
                         else Inr acc)))"

text \<open>The \<open>forEach\<close>; an exception in one turn ends it.\<close>

fun brain1_loop ::
  "Platform \<Rightarrow> string \<times> nat \<Rightarrow> EvidenceArtifact list \<Rightarrow> js_error + string \<times> nat" where
  "brain1_loop env acc [] = Inr acc"
| "brain1_loop env acc (ev # evs) =
     (case brain1_step env acc ev of
        Inl e \<Rightarrow> Inl e
      | Inr acc' \<Rightarrow> brain1_loop env acc' evs)"

definition contradictionsFound :: "Platform \<Rightarrow> EvidenceArtifact list \<Rightarrow> js_error + nat" where
  "contradictionsFound env evidence =
     (case brain1_loop env (''BRAIN 1 (CONTRADICTION): ACTIVE\<newline>'', 0) evidence of
        Inl e \<Rightarrow> Inl e
      | Inr acc \<Rightarrow> Inr (snd acc))"

definition runBrain1 :: "Platform \<Rightarrow> EvidenceArtifact list \<Rightarrow> js_error + string" where
  "runBrain1 env evidence =
     (case brain1_loop env (''BRAIN 1 (CONTRADICTION): ACTIVE\<newline>'', 0) evidence of
        Inl e \<Rightarrow> Inl e
      | Inr acc \<Rightarrow>
          if snd acc = 0
          then Inr (fst acc @ ''No structural contradictions detected in metadata layer.\<newline>'')
          else Inr (fst acc @ ''\<newline>WARNING: '' @ natToString (snd acc)
                    @ '' contradictions detected. Integrity suspicious.\<newline>''))"

subsection \<open>Brain 2: document forensics\<close>

definition sizeText :: "Content \<Rightarrow> string" where
  "sizeText c = (case c of FileContent f \<Rightarrow> natToString (length (bytes_f f))
                 | BlobContent b \<Rightarrow> ''N/A'' | TextContent t \<Rightarrow> ''N/A'')"

text \<open>The entry of one artifact; \<open>t\<close> is the reading of \<open>Date.now()\<close> taken for it.\<close>

definition brain2_entry :: "int \<Rightarrow> EvidenceArtifact \<Rightarrow> string" where
  "brain2_entry t ev =
     ''> Artifact: '' @ show_opt (filename ev) @ ''\<newline>''
     @ ''  SIZE: '' @ sizeText (content ev) @ '' bytes\<newline>''
     @ ''  HASH: '' @ substring 16 (cryptographicHash ev) @ ''...\<newline>''
     @ ''  TYPE: '' @ show_opt (mimeType ev) @ ''\<newline>''
     @ (if timestamp ev > t + 5000 then ''  [FLAG] Timestamp is in the future.\<newline>'' else [])
     @ ''  INTEGRITY: PRESERVED\<newline>\<newline>''"

fun brain2_loop :: "Platform \<Rightarrow> nat \<Rightarrow> EvidenceArtifact list \<Rightarrow> string" where
  "brain2_loop env k [] = []"
| "brain2_loop env k (ev # evs) = brain2_entry (now env k) ev @ brain2_loop env (Suc k) evs"

definition runBrain2 :: "Platform \<Rightarrow> EvidenceArtifact list \<Rightarrow> string" where
  "runBrain2 env evidence = ''BRAIN 2 (FORENSICS): ACTIVE\<newline>'' @ brain2_loop env 0 evidence"

subsection \<open>Brains 3 and 4\<close>

definition runBrain3 :: "EvidenceArtifact list \<Rightarrow> string" where
  "runBrain3 evidence =
     ''BRAIN 3 (COMMS INTEGRITY): ACTIVE\<newline>''
     @ (if length evidence > 1
        then ''Continuity Check: Multiple artifacts present. Sequence validated by timestamp sort.\<newline>''
        else ''Continuity Check: Single artifact. Cannot verify conversation flow.\<newline>'')"

definition runBrain4 :: string where
  "runBrain4 = ''BRAIN 4 (LINGUISTICS): OFFLINE\<newline>- Status: Insufficient local NLP compute for behavioral profiling.\<newline>- Action: Upload to Legal Assistant for pattern matching.\<newline>''"

subsection \<open>Brain 5: timeline and geolocation\<close>

text \<open>\<open>evidence.filter(e => e.sessionLocation).map(e => e.sessionLocation)\<close>; a location
  is an object and so truthy whenever it is present.\<close>

definition geoLocations :: "EvidenceArtifact list \<Rightarrow> GeoLocation option list" where
  "geoLocations evidence = map sessionLocation (filter (\<lambda>e. sessionLocation e \<noteq> None) evidence)"

text \<open>The location brain 5 reports: \<open>geoLocations[0]\<close> when the list is not empty.\<close>

definition brain5_location :: "EvidenceArtifact list \<Rightarrow> GeoLocation option" where
  "brain5_location evidence =
     (if length (geoLocations evidence) > 0
      then (case js_index (geoLocations evidence) 0 of None \<Rightarrow> None | Some loc \<Rightarrow> loc)
      else None)"

text \<open>\<open>loc?.lat.toFixed(4)\<close> and \<open>loc?.accuracy\<close> inside a template literal.\<close>

definition show_chain :: "GeoLocation option \<Rightarrow> (GeoLocation \<Rightarrow> string) \<Rightarrow> string" where
  "show_chain loc f = (case loc of None \<Rightarrow> ''undefined'' | Some l \<Rightarrow> f l)"

definition brain5_geo :: "Platform \<Rightarrow> EvidenceArtifact list \<Rightarrow> string" where
  "brain5_geo env evidence =
     (if length (geoLocations evidence) > 0
      then ''Session Jurisdiction: Lat ''
             @ show_chain (brain5_location evidence) (\<lambda>l. toFixed env 4 (lat l))
             @ '', Lng '' @ show_chain (brain5_location evidence) (\<lambda>l. toFixed env 4 (lng l))
             @ '' (Accuracy: ''
             @ show_chain (brain5_location evidence) (\<lambda>l. numberToString env (accuracy l))
             @ ''m)\<newline>''
      else ''Session Jurisdiction: UNKNOWN (GPS Data Missing)\<newline>'')"

text \<open>\<open>[...evidence].sort((a,b) => a.timestamp - b.timestamp)\<close> is a stable sort by
  timestamp.  Reading \<open>.timestamp\<close> of an element that is not there would throw.\<close>

definition runBrain5 :: "Platform \<Rightarrow> EvidenceArtifact list \<Rightarrow> js_error + string" where
  "runBrain5 env evidence =
     (let sorted = sort_key timestamp evidence in
      if length sorted = 0 then Inr (''BRAIN 5 (TIMELINE & GEO): ACTIVE\<newline>'' @ ''No data.\<newline>'')
      else
        (case js_index sorted 0 of
           None \<Rightarrow> Inl TypeError
         | Some first \<Rightarrow>
             (case js_index sorted (int (length sorted) - 1) of
                None \<Rightarrow> Inl TypeError
              | Some final \<Rightarrow>
                  Inr (''BRAIN 5 (TIMELINE & GEO): ACTIVE\<newline>''
                       @ ''Timeline Span: '' @ getLocalTime env (timestamp first)
                       @ '' to '' @ getLocalTime env (timestamp final) @ ''\<newline>''
                       @ brain5_geo env evidence))))"

subsection \<open>Brains 6 to 9\<close>

definition runBrain6 :: string where
  "runBrain6 = ''BRAIN 6 (FINANCIAL): OFFLINE\<newline>- Status: No Excel/CSV parser loaded in immutable core.\<newline>''"

text \<open>The location brain 7 maps: \<open>evidence.find(e => e.sessionLocation)?.sessionLocation\<close>.\<close>

definition brain7_location :: "EvidenceArtifact list \<Rightarrow> GeoLocation option" where
  "brain7_location evidence =
     (case find (\<lambda>e. sessionLocation e \<noteq> None) evidence of
        None \<Rightarrow> None
      | Some e \<Rightarrow> sessionLocation e)"

definition runBrain7 :: "Platform \<Rightarrow> EvidenceArtifact list \<Rightarrow> string" where
  "runBrain7 env evidence =
     ''BRAIN 7 (LEGAL MAPPING): ACTIVE\<newline>''
     @ (case brain7_location evidence of
          Some loc \<Rightarrow>
            if lat loc > 22 \<and> lat loc < 26 \<and> lng loc > 51 \<and> lng loc < 57
            then ''Detected Jurisdiction: UNITED ARAB EMIRATES (Based on Coords)\<newline>''
                 @ ''Relevant Laws: Federal Law 32/2021 (Cybercrime), Article 84.\<newline>''
            else if lat loc > - 35 \<and> lat loc < - 22 \<and> lng loc > 16 \<and> lng loc < 33
            then ''Detected Jurisdiction: SOUTH AFRICA (Based on Coords)\<newline>''
                 @ ''Relevant Laws: ECT Act 25 of 2002.\<newline>''
            else ''Detected Jurisdiction: INTERNATIONAL / UNKNOWN (Lat: ''
                 @ toFixed env 2 (lat loc) @ '')\<newline>''
        | None \<Rightarrow> ''Jurisdiction: UNDETERMINED (No GPS)\<newline>'')"

definition audioCount :: "EvidenceArtifact list \<Rightarrow> nat" where
  "audioCount evidence = length (filter (\<lambda>e. type_a e = AUDIO \<or> type_a e = VIDEO) evidence)"

definition runBrain8 :: "EvidenceArtifact list \<Rightarrow> string" where
  "runBrain8 evidence =
     ''BRAIN 8 (AUDIO/VOICE): OFFLINE\<newline>- '' @ natToString (audioCount evidence)
     @ '' AV artifacts detected.\<newline>- Deepfake analysis requires Cloud Uplink.\<newline>''"

definition runBrain9 :: string where
  "runBrain9 = ''BRAIN 9 (R&D): NON-VOTING ADVISORY\<newline>- Hypothesis: Cross-reference metadata with external weather logs.\<newline>- Recommendation: Verify SHA-512 hashes manually via independent terminal.\<newline>''"

subsection \<open>Report composition (\<open>runConstitutionalAnalysis\<close>)\<close>

text \<open>The header reads the clock once, before any brain runs.  The three characters
  after the version string are in the source as they are here, in UTF-8.\<close>

definition reportHeader :: "Platform \<Rightarrow> string \<Rightarrow> string" where
  "reportHeader env caseId =
     VERSION_STRING @ '' ''
     @ [CHR 0xC3, CHR 0xA2, CHR 0xE2, CHR 0x82, CHR 0xAC, CHR 0xE2, CHR 0x80, CHR 0x9D]
     @ '' Constitutional Deployment Validator\<newline>''
     @ ''CASE ID: '' @ caseId @ ''\<newline>''
     @ ''DATE: '' @ getLocalTime env (now env 0) @ '' (Local Device Time)\<newline>''
     @ ''MODE: OFFLINE STRICT (NO API)\<newline>''
     @ ''------------------------------------------------------------\<newline>\<newline>''"

definition complianceTests :: string where
  "complianceTests =
     ''CONSTITUTIONAL COMPLIANCE TESTS:\<newline>''
     @ ''----------------------------------------\<newline>''
     @ ''Test 1: Constitution Hash Verification... PASS ['' @ substring 8 CONSTITUTION_HASH @ ''...]\<newline>''
     @ ''Test 2: Guardianship Treaty... PASS\<newline>''
     @ ''Test 3: Zero-Trust Architecture... PASS\<newline>''
     @ ''Test 4: Offline Enforcement... PASS\<newline>\<newline>''"

definition manifestLine :: "EvidenceArtifact \<Rightarrow> string" where
  "manifestLine ev =
     ''[ID:'' @ substring 8 (id_a ev) @ ''] '' @ show_opt (filename ev)
     @ '' ('' @ typeName (type_a ev) @ '') | SHA: '' @ cryptographicHash ev @ ''\<newline>''"

definition manifestLines :: "EvidenceArtifact list \<Rightarrow> string" where
  "manifestLines evidence = concat (map manifestLine evidence)"

definition manifest :: "EvidenceArtifact list \<Rightarrow> string" where
  "manifest evidence =
     ''1. EVIDENCE MANIFEST & ANCHORING\<newline>''
     @ ''--------------------------------\<newline>''
     @ manifestLines evidence
     @ ''\<newline>''"

text \<open>The nine outputs in module order.  Brain 2 reads the clock after the header has.
  Brain 1 runs first, so its exception is the one that escapes when it throws.\<close>

definition brainOutputs :: "Platform \<Rightarrow> EvidenceArtifact list \<Rightarrow> js_error + string" where
  "brainOutputs env evidence =
     (case runBrain1 env evidence of
        Inl e \<Rightarrow> Inl e
      | Inr brain1 \<Rightarrow>
     (case runBrain5 env evidence of
        Inl e \<Rightarrow> Inl e
      | Inr brain5 \<Rightarrow>
          Inr (''2. 9-BRAIN ARCHITECTURE OUTPUTS\<newline>''
               @ ''-------------------------------\<newline>''
               @ brain1 @ ''\<newline>''
               @ runBrain2 (after_reads 1 env) evidence @ ''\<newline>''
               @ runBrain3 evidence @ ''\<newline>''
               @ runBrain4 @ ''\<newline>''
               @ brain5 @ ''\<newline>''
               @ runBrain6 @ ''\<newline>''
               @ runBrain7 env evidence @ ''\<newline>''
               @ runBrain8 evidence @ ''\<newline>''
               @ runBrain9 @ ''\<newline>\<newline>'')))"

definition tripleVerification :: string where
  "tripleVerification =
     ''3. TRIPLE VERIFICATION DOCTRINE\<newline>''
     @ ''-------------------------------\<newline>''
     @ ''A) THESIS: Evidence suggests a collection of digital artifacts has been preserved.\<newline>''
     @ ''B) ANTITHESIS: Artifacts could be fabricated if source device was compromised before hashing.\<newline>''
     @ ''C) SYNTHESIS: Chain of custody valid from ingestion point. Content veracity: VERIFIED_DIGITALLY_ONLY.\<newline>\<newline>''
     @ ''TV_THESIS: PASS\<newline>''
     @ ''TV_ANTITHESIS: PASS (Risks Acknowledged)\<newline>''
     @ ''TV_SYNTHESIS: PASS\<newline>''
     @ ''OVERALL: PASS\<newline>\<newline>''"

definition contradictionsLine :: string where
  "contradictionsLine = ''Contradictions: 0 detected in metadata.\<newline>''"

definition dishonestyMatrix :: string where
  "dishonestyMatrix =
     ''4. DISHONESTY DETECTION MATRIX\<newline>''
     @ ''------------------------------\<newline>''
     @ contradictionsLine
     @ ''Omissions: Cannot determine without external reference.\<newline>''
     @ ''Tampering: None detected by Brain 2.\<newline>\<newline>''"

text \<open>Everything the report holds before its self-hash is computed.\<close>

definition reportBody :: "Platform \<Rightarrow> EvidenceArtifact list \<Rightarrow> string \<Rightarrow> js_error + string" where
  "reportBody env evidence caseId =
     (case brainOutputs env evidence of
        Inl e \<Rightarrow> Inl e
      | Inr brains \<Rightarrow>
          Inr (reportHeader env caseId @ complianceTests @ manifest evidence @ brains
               @ tripleVerification @ dishonestyMatrix
               @ ''SEALED ORIGINAL - VERUM OMNIS\<newline>''))"

definition runConstitutionalAnalysis ::
  "Platform \<Rightarrow> EvidenceArtifact list \<Rightarrow> string \<Rightarrow> js_error + string" where
  "runConstitutionalAnalysis env evidence caseId =
     (case reportBody env evidence caseId of
        Inl e \<Rightarrow> Inl e
      | Inr body \<Rightarrow> Inr (body @ ''SHA-512:'' @ sha512 body @ ''\<newline>''))"

section \<open>The application (\<open>src/App.tsx\<close>)\<close>

text \<open>
  The state is the React state of \<open>App\<close> that the evidence handlers read or write,
  together with the object store and the messages shown with \<open>alert\<close>, oldest first.
  A handler is a function from the state before to the state after it has run to
  completion.  The chat, audio and video state is left out.
\<close>

datatype Tab = TabIntake | TabAnalysis | TabReport | TabLegal

record AppState =
  evidenceList :: "EvidenceArtifact list"
  isAnalyzing :: bool
  analysisStatus :: string
  report :: string
  caseId :: string
  activeTab :: Tab
  savedCases :: "CaseRecord list"
  caseQRCode :: string
  showScanner :: bool
  sessionLocation_s :: "GeoLocation option"
  cases_db :: "CaseRecord list"
  alerts :: "string list"

definition initialState :: "Platform \<Rightarrow> AppState" where
  "initialState env =
     \<lparr>evidenceList = [], isAnalyzing = False, analysisStatus = [], report = [],
      caseId = randomUUID env 0, activeTab = TabIntake, savedCases = [],
      caseQRCode = [], showScanner = False, sessionLocation_s = None,
      cases_db = [], alerts = []\<rparr>"

definition generateQRCode :: "Platform \<Rightarrow> string \<Rightarrow> string" where
  "generateQRCode env text = (case toDataURL env text of None \<Rightarrow> [] | Some url \<Rightarrow> url)"

text \<open>\<open>cases.sort((a,b) => b.timestamp - a.timestamp)\<close>: newest first, stable.\<close>

definition refreshSavedCases :: "AppState \<Rightarrow> AppState" where
  "refreshSavedCases s =
     s\<lparr>savedCases := sort_key (\<lambda>c. - timestamp_r c) (loadCases (cases_db s))\<rparr>"

definition evidenceTypeOf :: "string \<Rightarrow> EvidenceType" where
  "evidenceTypeOf mime =
     (let type0 = DOCUMENT;
          type1 = (if startsWith mime ''image/'' then PHOTO else type0);
          type2 = (if startsWith mime ''video/'' then VIDEO else type1)
      in if startsWith mime ''audio/'' then AUDIO else type2)"

text \<open>The artifact made for the \<open>i\<close>-th file of an upload.  Its chain of custody is
  the single \<open>CAPTURED\<close> entry.\<close>

definition newEvidence :: "Platform \<Rightarrow> GeoLocation option \<Rightarrow> nat \<Rightarrow> File \<Rightarrow> EvidenceArtifact" where
  "newEvidence env loc i file =
     \<lparr>id_a = randomUUID env i,
      type_a = evidenceTypeOf (type_f file),
      content = FileContent file,
      filename = Some (name_f file),
      mimeType = Some (type_f file),
      timestamp = now env (2 * i),
      gpsCoordinates = None,
      sessionLocation = loc,
      deviceInfo = getDeviceInfo env,
      chainOfCustody =
        [\<lparr>timestamp_c = now env (2 * i + 1), action = ''CAPTURED'', actor = ''USER'',
          hash_c = sha512 (bytes_f file), location = loc, notes_c = None\<rparr>],
      cryptographicHash = sha512 (bytes_f file),
      previewUrl = Some (createObjectURL env i)\<rparr>"

definition handleFileUpload :: "Platform \<Rightarrow> File list \<Rightarrow> AppState \<Rightarrow> AppState" where
  "handleFileUpload env files s =
     s\<lparr>evidenceList :=
         evidenceList s
         @ map (\<lambda>i. newEvidence env (sessionLocation_s s) i (files ! i)) [0..<length files]\<rparr>"

text \<open>If the analysis threw, the handler would stop before it stores the report.\<close>

definition runAnalysis :: "Platform \<Rightarrow> AppState \<Rightarrow> AppState" where
  "runAnalysis env s =
     (case runConstitutionalAnalysis env (evidenceList s) (caseId s) of
        Inl e \<Rightarrow>
          s\<lparr>isAnalyzing := True, analysisStatus := ''EXECUTING OFFLINE 9-BRAIN PROTOCOL...''\<rparr>
      | Inr result \<Rightarrow>
          s\<lparr>isAnalyzing := False, analysisStatus := ''EXECUTING OFFLINE 9-BRAIN PROTOCOL...'',
            report := result, activeTab := TabReport\<rparr>)"

text \<open>\<open>handleSaveCase\<close> reads the clock twice for the name of the case, then
  \<open>saveCase\<close> reads it for the time stamp of the record.\<close>

definition handleSaveCase :: "Platform \<Rightarrow> AppState \<Rightarrow> AppState" where
  "handleSaveCase env s =
     (let saved = saveCase (after_reads 2 env) (cases_db s) (caseId s)
                    (''Case '' @ toLocaleDateString env (now env 0) @ '' ''
                       @ toLocaleTimeString env (now env 1))
                    (report s) (evidenceList s)
      in refreshSavedCases
           (s\<lparr>caseQRCode := generateQRCode env (caseHash (fst saved)),
              cases_db := snd saved,
              alerts := alerts s @ [''Case cryptographically sealed and saved.'']\<rparr>))"

text \<open>Loading a record gives every artifact whose content is a file or a blob a new
  object URL; an artifact with text content gets none.\<close>

definition hydrate :: "Platform \<Rightarrow> nat \<Rightarrow> EvidenceArtifact \<Rightarrow> EvidenceArtifact" where
  "hydrate env i e =
     e\<lparr>previewUrl := (case content e of
                        FileContent f \<Rightarrow> Some (createObjectURL env i)
                      | BlobContent b \<Rightarrow> Some (createObjectURL env i)
                      | TextContent t \<Rightarrow> None)\<rparr>"

definition handleLoadCase :: "Platform \<Rightarrow> CaseRecord \<Rightarrow> AppState \<Rightarrow> AppState" where
  "handleLoadCase env record s =
     s\<lparr>evidenceList :=
         map (\<lambda>i. hydrate env i (evidence_r record ! i)) [0..<length (evidence_r record)],
       report := report_r record,
       caseId := id_r record,
       caseQRCode := generateQRCode env (caseHash record),
       activeTab := TabReport\<rparr>"

definition handleClearStorage :: "Platform \<Rightarrow> AppState \<Rightarrow> AppState" where
  "handleClearStorage env s =
     (if confirm env then refreshSavedCases (s\<lparr>cases_db := clearAllCases (cases_db s)\<rparr>)
      else s)"

definition handleEmptyEvidence :: "Platform \<Rightarrow> AppState \<Rightarrow> AppState" where
  "handleEmptyEvidence env s =
     s\<lparr>evidenceList := [], report := [], caseId := randomUUID env 0, caseQRCode := []\<rparr>"

text \<open>\<open>savedCases.find(c => c.caseHash === data)\<close>: strict equality of strings.\<close>

definition onScanSuccess :: "Platform \<Rightarrow> string \<Rightarrow> AppState \<Rightarrow> AppState" where
  "onScanSuccess env data s =
     (case find (\<lambda>c. caseHash c = data) (savedCases s) of
        Some match \<Rightarrow>
          handleLoadCase env match
            (s\<lparr>showScanner := False,
               alerts := alerts s
                 @ [''INTEGRITY VERIFIED: Matches Case '' @ [CHR 0x22] @ name_r match
                      @ [CHR 0x22] @ '' \<newline>ID: '' @ id_r match]\<rparr>)
      | None \<Rightarrow>
          s\<lparr>showScanner := False,
            alerts := alerts s
              @ [''WARNING: TAMPER DETECTED OR UNKNOWN SEAL.\<newline>Hash: '' @ data]\<rparr>)"

text \<open>What the user can make the application do, and the handler each event runs.\<close>

datatype Event =
    FileUpload "File list"
  | RunAnalysis
  | SaveCase
  | LoadCase CaseRecord
  | ClearStorage
  | EmptyEvidence
  | ScanSuccess string

fun handle :: "Platform \<Rightarrow> Event \<Rightarrow> AppState \<Rightarrow> AppState" where
  "handle env (FileUpload files) s = handleFileUpload env files s"
| "handle env RunAnalysis s = runAnalysis env s"
| "handle env SaveCase s = handleSaveCase env s"
| "handle env (LoadCase record) s = handleLoadCase env record s"
| "handle env ClearStorage s = handleClearStorage env s"
| "handle env EmptyEvidence s = handleEmptyEvidence env s"
| "handle env (ScanSuccess data) s = onScanSuccess env data s"

section \<open>Notions the claims are stated with\<close>

text \<open>The first session location in ingestion order, by a plain scan of the list.\<close>

fun first_located :: "EvidenceArtifact list \<Rightarrow> GeoLocation option" where
  "first_located [] = None"
| "first_located (e # es) =
     (case sessionLocation e of Some loc \<Rightarrow> Some loc | None \<Rightarrow> first_located es)"

text \<open>The actions recorded in the chains of custody of a list of artifacts, artifact
  by artifact, each chain in its order.\<close>

definition custodyActions :: "EvidenceArtifact list \<Rightarrow> string list" where
  "custodyActions evidence = concat (map (\<lambda>e. map action (chainOfCustody e)) evidence)"

text \<open>The terminal line of a text that ends with a line feed: the characters after
  the last line feed but one, the final line feed included; and the text before it.\<close>

definition terminalLine :: "string \<Rightarrow> string" where
  "terminalLine text =
     (if text = [] then []
      else rev (takeWhile (\<lambda>c. c \<noteq> CHR ''\<newline>'') (rev (butlast text))) @ [last text])"

definition precedingText :: "string \<Rightarrow> string" where
  "precedingText text = take (length text - length (terminalLine text)) text"

text \<open>A number cut off after \<open>f\<close> decimals (towards zero), printed like \<open>toFixed\<close>
  prints: the latitude as the specification describes it for module 7.\<close>

definition spec_truncatedAbs :: "nat \<Rightarrow> real \<Rightarrow> string" where
  "spec_truncatedAbs f x = pointed f (zeroPadded f (natToString (nat \<lfloor>x * 10 ^ f\<rfloor>)))"

definition spec_truncated :: "nat \<Rightarrow> real \<Rightarrow> string" where
  "spec_truncated f x =
     (if x < 0 then ''-'' @ spec_truncatedAbs f (- x) else spec_truncatedAbs f x)"

section \<open>Inputs of the worked examples\<close>

text \<open>A platform for the worked examples: the clock stands at the epoch, the locale
  is en-US in UTC (given on the instants the examples use), \<open>String\<close> is given on
  the accuracies the examples use, identifiers and URLs are numbered.\<close>

definition examplePlatform :: Platform where
  "examplePlatform =
     \<lparr>now = (\<lambda>k. 0),
      toLocaleString = (\<lambda>t. if t = 0 then ''1/1/1970, 12:00:00 AM''
                            else if t = 6000 then ''1/1/1970, 12:00:06 AM''
                            else if t = 10000 then ''1/1/1970, 12:00:10 AM''
                            else ''Invalid Date''),
      toLocaleDateString = (\<lambda>t. ''1/1/1970''),
      toLocaleTimeString = (\<lambda>t. ''12:00:00 AM''),
      numberToString = (\<lambda>x. if x = 5 then ''5'' else if x = 10 then ''10'' else ''NaN''),
      objectCtorToString = ''function Object() { [native code] }'',
      randomUUID = (\<lambda>k. ''00000000-0000-4000-8000-00000000000'' @ [''0123456789'' ! (k mod 10)]),
      createObjectURL = (\<lambda>k. ''blob:null/'' @ [''0123456789'' ! (k mod 10)]),
      toDataURL = (\<lambda>text. Some (''data:image/png;base64,'' @ text)),
      getDeviceInfo = \<lparr>userAgent = ''Mozilla/5.0'', platform = ''Linux x86_64'',
                        language = ''en-US''\<rparr>,
      confirm = True\<rparr>"

definition exampleFile :: File where
  "exampleFile = \<lparr>name_f = ''x.pdf'', type_f = ''image/png'', bytes_f = ''abc''\<rparr>"

text \<open>A file named \<open>x.pdf\<close> that declares the type \<open>image/png\<close>, with no location.\<close>

definition mismatchedArtifact :: EvidenceArtifact where
  "mismatchedArtifact =
     \<lparr>id_a = ''11111111-2222-4333-8444-555555555555'',
      type_a = PHOTO,
      content = FileContent exampleFile,
      filename = Some ''x.pdf'',
      mimeType = Some ''image/png'',
      timestamp = 10000,
      gpsCoordinates = None,
      sessionLocation = None,
      deviceInfo = getDeviceInfo examplePlatform,
      chainOfCustody = [],
      cryptographicHash = ''ddaf35a193617abacc417349ae20413112e6fa4e89a97ea20a9eeee64b55d39a2192992a274fc1a836ba3c23a3feebbd454d4423643ce80e2a9ac94fa54ca49f'',
      previewUrl = None\<rparr>"

text \<open>The same artifact with no MIME type: an object that does not meet the declared
  type, which nothing checks when the program runs.\<close>

definition artifactWithoutMime :: EvidenceArtifact where
  "artifactWithoutMime = mismatchedArtifact\<lparr>mimeType := None\<rparr>"

text \<open>The same artifact processed at the given coordinates.\<close>

definition locatedArtifact :: "real \<Rightarrow> real \<Rightarrow> EvidenceArtifact" where
  "locatedArtifact la lo =
     mismatchedArtifact\<lparr>sessionLocation := Some \<lparr>lat = la, lng = lo, accuracy = 5\<rparr>\<rparr>"

text \<open>The example platform with the clock standing at \<open>t\<close> milliseconds.\<close>

definition platformAt :: "int \<Rightarrow> Platform" where
  "platformAt t = examplePlatform\<lparr>now := (\<lambda>k. t)\<rparr>"

text \<open>A stored case with no evidence and the report text \<open>R\<close>, under the seal
  \<open>saveCase\<close> computes for it, and the application as it starts on a store that
  holds this case.\<close>

definition exampleRecord :: CaseRecord where
  "exampleRecord =
     \<lparr>id_r = ''case-1'', name_r = ''Case 1'', timestamp_r = 0, report_r = ''R'',
      evidence_r = [],
      caseHash = ''74aee5e193b3405bd6fef009ea5cb4e629eb58b7947e4695cc072d3eb303e9a8bddbe910698017aaa77102499568718dd88669d96906d9db53131677ec7f5da1''\<rparr>"

definition exampleStored :: AppState where
  "exampleStored = refreshSavedCases ((initialState examplePlatform)\<lparr>cases_db := [exampleRecord]\<rparr>)"

text \<open>One file is ingested, the analysis is run, and the case is sealed and saved.\<close>

definition exampleAnalysed :: AppState where
  "exampleAnalysed =
     handle examplePlatform RunAnalysis
       (handle examplePlatform (FileUpload [exampleFile]) (initialState examplePlatform))"

definition exampleSealed :: AppState where
  "exampleSealed = handle examplePlatform SaveCase exampleAnalysed"

text \<open>The stored case is loaded, one more file is ingested, and the case is sealed
  and saved again.\<close>

definition exampleResealed :: AppState where
  "exampleResealed =
     handle examplePlatform SaveCase
       (handle examplePlatform (FileUpload [exampleFile])
          (handle examplePlatform (LoadCase exampleRecord) exampleStored))"

section \<open>Facts about the digest and the engine\<close>

subsection \<open>The digest on the test vectors of the standard\<close>

text \<open>The digests of the empty message and of \<open>abc\<close>, computed in the logic from the
  definitions above, are the ones published with FIPS 180-4.\<close>

lemma sha512_empty:
  "sha512 [] = ''cf83e1357eefb8bdf1542850d66d8007d620e4050b5715dc83f4a921d36ce9ce47d0d13c5d85f2b0ff8318d2877eec2f63b931bd47417a81a538327af927da3e''"
  by code_simp

lemma sha512_abc:
  "sha512 ''abc'' = ''ddaf35a193617abacc417349ae20413112e6fa4e89a97ea20a9eeee64b55d39a2192992a274fc1a836ba3c23a3feebbd454d4423643ce80e2a9ac94fa54ca49f''"
  by code_simp

subsection \<open>Location scans\<close>

lemma brain7_location_first: "brain7_location evidence = first_located evidence"
  by (induction evidence) (auto simp: brain7_location_def split: option.splits)


subsection \<open>No module throws\<close>

lemma js_index_first: "xs \<noteq> [] \<Longrightarrow> js_index xs 0 = Some (hd xs)"
  by (cases xs) (simp_all add: js_index_def)

lemma js_index_last: "xs \<noteq> [] \<Longrightarrow> js_index xs (int (length xs) - 1) = Some (last xs)"
  by (cases xs rule: rev_cases) (simp_all add: js_index_def nth_append)

lemma runBrain5_total: "\<exists>out. runBrain5 env evidence = Inr out"
proof (cases "sort_key timestamp evidence = []")
  case True
  then show ?thesis by (simp add: runBrain5_def)
next
  case False
  have "js_index (sort_key timestamp evidence) 0 = Some (hd (sort_key timestamp evidence))"
    and "js_index (sort_key timestamp evidence) (int (length (sort_key timestamp evidence)) - 1)
           = Some (last (sort_key timestamp evidence))"
    using False by (rule js_index_first, rule js_index_last)
  with False show ?thesis
    by (simp add: runBrain5_def Let_def)
qed

lemma brain1_step_total:
  "mimeType ev \<noteq> None \<Longrightarrow> \<exists>acc'. brain1_step env acc ev = Inr acc'"
  by (auto simp: brain1_step_def split: option.splits)

lemma brain1_loop_total:
  "\<forall>e \<in> set evidence. mimeType e \<noteq> None \<Longrightarrow> \<exists>acc'. brain1_loop env acc evidence = Inr acc'"
proof (induction evidence arbitrary: acc)
  case Nil
  show ?case by simp
next
  case (Cons ev evs)
  then obtain acc1 where "brain1_step env acc ev = Inr acc1"
    using brain1_step_total [of ev env acc] by auto
  moreover have "\<exists>acc2. brain1_loop env acc1 evs = Inr acc2"
    using Cons.IH [of acc1] Cons.prems by simp
  ultimately show ?case by auto
qed

lemma runBrain1_total:
  "\<forall>e \<in> set evidence. mimeType e \<noteq> None \<Longrightarrow> \<exists>out. runBrain1 env evidence = Inr out"
proof -
  assume "\<forall>e \<in> set evidence. mimeType e \<noteq> None"
  then obtain acc where
    "brain1_loop env (''BRAIN 1 (CONTRADICTION): ACTIVE\<newline>'', 0) evidence = Inr acc"
    using brain1_loop_total by blast
  then show ?thesis by (simp add: runBrain1_def)
qed

lemma brainOutputs_total:
  "\<forall>e \<in> set evidence. mimeType e \<noteq> None \<Longrightarrow> \<exists>out. brainOutputs env evidence = Inr out"
proof -
  assume "\<forall>e \<in> set evidence. mimeType e \<noteq> None"
  then obtain b1 where "runBrain1 env evidence = Inr b1"
    using runBrain1_total by blast
  moreover obtain b5 where "runBrain5 env evidence = Inr b5"
    using runBrain5_total by blast
  ultimately show ?thesis by (simp add: brainOutputs_def)
qed

lemma reportBody_total:
  "\<forall>e \<in> set evidence. mimeType e \<noteq> None \<Longrightarrow> \<exists>body. reportBody env evidence cid = Inr body"
proof -
  assume "\<forall>e \<in> set evidence. mimeType e \<noteq> None"
  then obtain b where "brainOutputs env evidence = Inr b"
    using brainOutputs_total by blast
  then show ?thesis by (simp add: reportBody_def)
qed

lemma reportBody_Inr_shape:
  "reportBody env evidence cid = Inr body
   \<Longrightarrow> \<exists>pre. body = pre @ dishonestyMatrix @ ''SEALED ORIGINAL - VERUM OMNIS\<newline>''"
proof -
  assume r: "reportBody env evidence cid = Inr body"
  then obtain b where "brainOutputs env evidence = Inr b"
    by (cases "brainOutputs env evidence") (simp_all add: reportBody_def)
  with r have "body
      = (reportHeader env cid @ complianceTests @ manifest evidence @ b @ tripleVerification)
          @ dishonestyMatrix @ ''SEALED ORIGINAL - VERUM OMNIS\<newline>''"
    by (simp add: reportBody_def)
  then show ?thesis by blast
qed

lemma reportBody_shape:
  "\<forall>e \<in> set evidence. mimeType e \<noteq> None
   \<Longrightarrow> \<exists>pre. reportBody env evidence cid
           = Inr (pre @ dishonestyMatrix @ ''SEALED ORIGINAL - VERUM OMNIS\<newline>'')"
proof -
  assume "\<forall>e \<in> set evidence. mimeType e \<noteq> None"
  then obtain body where b: "reportBody env evidence cid = Inr body"
    using reportBody_total by blast
  then obtain pre where "body = pre @ dishonestyMatrix @ ''SEALED ORIGINAL - VERUM OMNIS\<newline>''"
    using reportBody_Inr_shape by blast
  with b show ?thesis by blast
qed

lemma report_starts_with_header:
  "\<forall>e \<in> set evidence. mimeType e \<noteq> None
   \<Longrightarrow> \<exists>rest. runConstitutionalAnalysis env evidence cid = Inr (reportHeader env cid @ rest)"
proof -
  assume "\<forall>e \<in> set evidence. mimeType e \<noteq> None"
  then obtain b where "brainOutputs env evidence = Inr b"
    using brainOutputs_total by blast
  then show ?thesis
    by (simp add: runConstitutionalAnalysis_def reportBody_def)
qed

lemma report_Inr_shape:
  assumes "runConstitutionalAnalysis env evidence cid = Inr r"
  shows "\<exists>body. reportBody env evidence cid = Inr body
           \<and> r = body @ ''SHA-512:'' @ sha512 body @ ''\<newline>''"
  using assms
  by (cases "reportBody env evidence cid") (simp_all add: runConstitutionalAnalysis_def)

subsection \<open>The digest is 128 hexadecimal characters\<close>

lemma length_shift_in: "length st = 8 \<Longrightarrow> length (shift_in st t1 t2) = 8"
  by (simp add: shift_in_def)

lemma length_rounds: "length st = 8 \<Longrightarrow> length (foldl round_step st kws) = 8"
  by (induction kws arbitrary: st) (simp_all add: round_step_def length_shift_in)

lemma length_compress: "length st = 8 \<Longrightarrow> length (compress st blk) = 8"
  by (simp add: compress_def length_rounds)

lemma length_state: "length st = 8 \<Longrightarrow> length (foldl compress st blks) = 8"
  by (induction blks arbitrary: st) (simp_all add: length_compress)

lemma length_H512: "length H512 = 8"
  by (simp add: H512_def)

lemma length_be_bytes: "length (be_bytes k n) = k"
  by (simp add: be_bytes_def)

lemma length_concat_const:
  "(\<And>x. x \<in> set xs \<Longrightarrow> length (f x) = k) \<Longrightarrow> length (concat (map f xs)) = k * length xs"
  by (induction xs) simp_all

lemma length_sha512_bytes: "length (sha512_bytes bs) = 64"
  by (simp add: sha512_bytes_def length_concat_const [where k = 8] length_be_bytes
      length_state length_H512)

lemma length_sha512: "length (sha512 data) = 128"
  by (simp add: sha512_def length_concat_const [where k = 2] hex_byte_def length_sha512_bytes)

lemma be_bytes_range: "b \<in> set (be_bytes k n) \<Longrightarrow> 0 \<le> b \<and> b < 256"
  by (auto simp: be_bytes_def)

lemma sha512_bytes_range: "b \<in> set (sha512_bytes bs) \<Longrightarrow> 0 \<le> b \<and> b < 256"
  by (auto simp: sha512_bytes_def dest: be_bytes_range)

lemma hexdigit_hex: "0 \<le> d \<Longrightarrow> d < 16 \<Longrightarrow> hexdigit d \<in> set ''0123456789abcdef''"
proof -
  assume "0 \<le> d" and "d < 16"
  then have "nat d < length ''0123456789abcdef''" by simp
  then show ?thesis unfolding hexdigit_def by (rule nth_mem)
qed

lemma hex_byte_hex:
  assumes "0 \<le> b" and "b < 256"
  shows "set (hex_byte b) \<subseteq> set ''0123456789abcdef''"
proof -
  have "0 \<le> b div 16" and "b div 16 < 16" and "0 \<le> b mod 16" and "b mod 16 < 16"
    using assms by simp_all
  then have "hexdigit (b div 16) \<in> set ''0123456789abcdef''"
    and "hexdigit (b mod 16) \<in> set ''0123456789abcdef''"
    by (simp_all only: hexdigit_hex)
  then show ?thesis by (simp add: hex_byte_def)
qed

lemma sha512_hex: "set (sha512 data) \<subseteq> set ''0123456789abcdef''"
proof
  fix c
  assume "c \<in> set (sha512 data)"
  then obtain b where b: "b \<in> set (sha512_bytes (map of_char data))"
    and c: "c \<in> set (hex_byte b)"
    unfolding sha512_def by (auto simp only: set_concat set_map)
  from b have "0 \<le> b" and "b < 256"
    by (simp_all add: sha512_bytes_range)
  then have "set (hex_byte b) \<subseteq> set ''0123456789abcdef''"
    by (rule hex_byte_hex)
  with c show "c \<in> set ''0123456789abcdef''"
    by (rule subsetD [rotated])
qed

lemma sha512_no_newline: "CHR ''\<newline>'' \<notin> set (sha512 data)"
  using sha512_hex [of data] by auto

subsection \<open>Splitting off the terminal line\<close>

lemma terminal_split:
  assumes "CHR ''\<newline>'' \<notin> set l" and "b = [] \<or> last b = CHR ''\<newline>''"
  shows "terminalLine (b @ l @ ''\<newline>'') = l @ ''\<newline>''"
    and "precedingText (b @ l @ ''\<newline>'') = b"
proof -
  have "takeWhile (\<lambda>c. c \<noteq> CHR ''\<newline>'') (rev b) = []"
    using assms(2) by (cases b rule: rev_cases) auto
  moreover have "takeWhile (\<lambda>c. c \<noteq> CHR ''\<newline>'') (rev l @ rev b)
      = rev l @ takeWhile (\<lambda>c. c \<noteq> CHR ''\<newline>'') (rev b)"
    by (rule takeWhile_append2) (use assms(1) in auto)
  ultimately have "takeWhile (\<lambda>c. c \<noteq> CHR ''\<newline>'') (rev l @ rev b) = rev l"
    by simp
  moreover have "butlast (b @ l @ ''\<newline>'') = b @ l"
    by (simp add: butlast_append)
  ultimately show t: "terminalLine (b @ l @ ''\<newline>'') = l @ ''\<newline>''"
    by (simp add: terminalLine_def)
  show "precedingText (b @ l @ ''\<newline>'') = b"
    unfolding precedingText_def t by simp
qed

subsection \<open>What the report depends on\<close>

lemma brain2_loop_cong:
  "(\<And>i. i < length evs \<Longrightarrow>
        (timestamp (evs ! i) > now e1 (k + i) + 5000)
        = (timestamp (evs ! i) > now e2 (k + i) + 5000))
   \<Longrightarrow> brain2_loop e1 k evs = brain2_loop e2 k evs"
proof (induction evs arbitrary: k)
  case Nil
  show ?case by simp
next
  case (Cons ev evs)
  have "(timestamp ev > now e1 k + 5000) = (timestamp ev > now e2 k + 5000)"
    using Cons.prems [of 0] by simp
  moreover have "brain2_loop e1 (Suc k) evs = brain2_loop e2 (Suc k) evs"
  proof (rule Cons.IH)
    fix i
    assume "i < length evs"
    then show "(timestamp (evs ! i) > now e1 (Suc k + i) + 5000)
             = (timestamp (evs ! i) > now e2 (Suc k + i) + 5000)"
      using Cons.prems [of "Suc i"] by simp
  qed
  ultimately show ?case by (simp add: brain2_entry_def)
qed

lemma runBrain1_cong:
  "objectCtorToString e1 = objectCtorToString e2 \<Longrightarrow> runBrain1 e1 evidence = runBrain1 e2 evidence"
proof -
  assume eq: "objectCtorToString e1 = objectCtorToString e2"
  have look: "mimeMapLookup e1 = mimeMapLookup e2"
    by (rule ext) (unfold mimeMapLookup_def eq, rule refl)
  have step: "brain1_step e1 = brain1_step e2"
    by (intro ext) (unfold brain1_step_def look, rule refl)
  have "brain1_loop e1 acc evidence = brain1_loop e2 acc evidence" for acc
    by (induction evidence arbitrary: acc) (simp_all add: step split: sum.splits)
  then show ?thesis
    by (simp add: runBrain1_def)
qed

lemma toFixed_cong:
  "numberToString e1 = numberToString e2 \<Longrightarrow> toFixed e1 f x = toFixed e2 f x"
  by (simp add: toFixed_def toFixedAbs_def)

lemma runBrain5_cong:
  "toLocaleString e1 = toLocaleString e2 \<Longrightarrow> numberToString e1 = numberToString e2
   \<Longrightarrow> runBrain5 e1 evidence = runBrain5 e2 evidence"
proof -
  assume a: "toLocaleString e1 = toLocaleString e2" and b: "numberToString e1 = numberToString e2"
  have tf: "toFixed e1 = toFixed e2"
    by (intro ext) (rule toFixed_cong [OF b])
  show ?thesis
    unfolding runBrain5_def brain5_geo_def getLocalTime_def a b tf by (rule refl)
qed

lemma runBrain7_cong:
  "numberToString e1 = numberToString e2 \<Longrightarrow> runBrain7 e1 evidence = runBrain7 e2 evidence"
proof -
  assume b: "numberToString e1 = numberToString e2"
  have tf: "toFixed e1 = toFixed e2"
    by (intro ext) (rule toFixed_cong [OF b])
  show ?thesis
    unfolding runBrain7_def tf by (rule refl)
qed

subsection \<open>The store and the handlers\<close>

lemma get_put_same: "get (put r db) (id_r r) = Some r"
  by (induction db) (simp_all add: get_def)

lemma get_put_other: "k \<noteq> id_r r \<Longrightarrow> get (put r db) k = get db k"
  by (induction db) (auto simp: get_def)

lemma cases_db_refreshSavedCases: "cases_db (refreshSavedCases s) = cases_db s"
  by (simp add: refreshSavedCases_def)

lemma evidenceList_refreshSavedCases: "evidenceList (refreshSavedCases s) = evidenceList s"
  by (simp add: refreshSavedCases_def)

lemma caseId_refreshSavedCases: "caseId (refreshSavedCases s) = caseId s"
  by (simp add: refreshSavedCases_def)

lemma cases_db_handleLoadCase: "cases_db (handleLoadCase env rec s) = cases_db s"
  by (simp add: handleLoadCase_def)

lemma cases_db_unchanged:
  "ev \<noteq> SaveCase \<Longrightarrow> ev \<noteq> ClearStorage \<Longrightarrow> cases_db (handle env ev s) = cases_db s"
  by (cases ev)
     (simp_all add: handleFileUpload_def runAnalysis_def handleLoadCase_def
        handleEmptyEvidence_def onScanSuccess_def split: sum.splits option.splits)

lemma handleSaveCase_evidence: "evidenceList (handleSaveCase env s) = evidenceList s"
  by (simp add: handleSaveCase_def Let_def evidenceList_refreshSavedCases)

lemma handleSaveCase_caseId: "caseId (handleSaveCase env s) = caseId s"
  by (simp add: handleSaveCase_def Let_def caseId_refreshSavedCases)

lemma handleSaveCase_stored:
  "\<exists>r. get (cases_db (handleSaveCase env s)) (caseId s) = Some r
       \<and> evidence_r r = evidenceList s \<and> report_r r = report s
       \<and> caseHash r = caseSeal (report s) (evidenceList s)"
proof -
  define r where "r = fst (saveCase (after_reads 2 env) (cases_db s) (caseId s)
       (''Case '' @ toLocaleDateString env (now env 0) @ '' '' @ toLocaleTimeString env (now env 1))
       (report s) (evidenceList s))"
  have id: "id_r r = caseId s" and ev: "evidence_r r = evidenceList s"
    and rp: "report_r r = report s" and ch: "caseHash r = caseSeal (report s) (evidenceList s)"
    by (simp_all add: r_def saveCase_def Let_def)
  have "cases_db (handleSaveCase env s) = put r (cases_db s)"
    by (simp add: handleSaveCase_def Let_def cases_db_refreshSavedCases r_def saveCase_def)
  then have "get (cases_db (handleSaveCase env s)) (caseId s) = Some r"
    using get_put_same [of r "cases_db s"] by (simp add: id)
  with ev rp ch show ?thesis by blast
qed

lemma handleSaveCase_other:
  "k \<noteq> caseId s \<Longrightarrow> get (cases_db (handleSaveCase env s)) k = get (cases_db s) k"
  by (simp add: handleSaveCase_def Let_def cases_db_refreshSavedCases saveCase_def get_put_other)

lemma runAnalysis_evidence: "evidenceList (runAnalysis env s) = evidenceList s"
  by (simp add: runAnalysis_def split: sum.splits)

lemma hydrate_preview: "(hydrate env i e)\<lparr>previewUrl := None\<rparr> = e\<lparr>previewUrl := None\<rparr>"
  by (simp add: hydrate_def)

lemma map_index: "map (\<lambda>i. f (xs ! i)) [0..<length xs] = map f xs"
  by (rule nth_equalityI) simp_all

lemma handleLoadCase_evidence:
  "map (\<lambda>e. e\<lparr>previewUrl := None\<rparr>) (evidenceList (handleLoadCase env rec s))
     = map (\<lambda>e. e\<lparr>previewUrl := None\<rparr>) (evidence_r rec)"
  by (simp add: handleLoadCase_def hydrate_preview o_def map_index)

section \<open>The claims\<close>

subsection \<open>C1: the case seal\<close>

lemma sha512_R:
  "sha512 ''R'' = ''e32af21345e7a932da186a47adb173dd1c6998767b25f8397f3740e87e591c2370be6f2b11c836ea6b4978034fff239309f721e7bf2491b6ba099c347fddc26f''"
  by code_simp

lemma sha512_of_digest_R:
  "sha512 ''e32af21345e7a932da186a47adb173dd1c6998767b25f8397f3740e87e591c2370be6f2b11c836ea6b4978034fff239309f721e7bf2491b6ba099c347fddc26f''
   = ''74aee5e193b3405bd6fef009ea5cb4e629eb58b7947e4695cc072d3eb303e9a8bddbe910698017aaa77102499568718dd88669d96906d9db53131677ec7f5da1''"
  by code_simp

lemma sha512_of_digests_empty_R:
  "sha512 ''cf83e1357eefb8bdf1542850d66d8007d620e4050b5715dc83f4a921d36ce9ce47d0d13c5d85f2b0ff8318d2877eec2f63b931bd47417a81a538327af927da3ee32af21345e7a932da186a47adb173dd1c6998767b25f8397f3740e87e591c2370be6f2b11c836ea6b4978034fff239309f721e7bf2491b6ba099c347fddc26f''
   = ''da21b79cf4c056d9234ee6b7610fda1d87ad4754dd7a444236c583c51ee7712b81e5fe8e9a080d7728e3ca1045bdff5c307fb7733d0aaf6dea9c1bf71db7d0f8''"
  by code_simp

text \<open>
  C1 as stated fails.  With no evidence and the report text \<open>R\<close>, \<open>saveCase\<close> seals
  the case with the digest of the report digest alone (the evidence part is the empty
  string), while the claim's formula first digests the empty concatenation and so
  hashes a 256-character string; the two seals differ.
\<close>

theorem C1_seal_counterexample:
  "caseHash (fst (saveCase examplePlatform [] ''case-1'' ''Case 1'' ''R'' []))
     \<noteq> spec_caseSeal ''R'' []"
  by (simp add: saveCase_def Let_def caseSeal_def spec_caseSeal_def evidenceHashes_def
      sha512_R sha512_empty sha512_of_digest_R sha512_of_digests_empty_R)

text \<open>
  C1, amended: for every evidence list and report text, the seal computed at save time
  is the digest of the string made of the evidence content hashes, concatenated
  directly in manifest order with no separator and not digested again, followed by the
  digest of the report text.
\<close>

theorem C1_seal_amended:
  "caseHash (fst (saveCase env db cid nm rep evidence))
     = sha512 (concat (map cryptographicHash evidence) @ sha512 rep)"
  by (simp add: saveCase_def Let_def caseSeal_def evidenceHashes_def)

subsection \<open>C2: determinism of the report\<close>

text \<open>
  C2 as stated fails.  The same artifact and the same case id, analysed with the clock
  at the epoch and again six seconds later, give two different reports: the header
  prints the time of the run.
\<close>

theorem C2_determinism_counterexample:
  "runConstitutionalAnalysis (platformAt 0) [mismatchedArtifact] ''case-1''
     \<noteq> runConstitutionalAnalysis (platformAt 6000) [mismatchedArtifact] ''case-1''"
proof -
  have m: "\<forall>e \<in> set [mismatchedArtifact]. mimeType e \<noteq> None"
    by (simp add: mismatchedArtifact_def)
  obtain rest0 where r0: "runConstitutionalAnalysis (platformAt 0) [mismatchedArtifact] ''case-1''
      = Inr (reportHeader (platformAt 0) ''case-1'' @ rest0)"
    using report_starts_with_header [of "[mismatchedArtifact]"] m by blast
  obtain rest6 where r6: "runConstitutionalAnalysis (platformAt 6000) [mismatchedArtifact] ''case-1''
      = Inr (reportHeader (platformAt 6000) ''case-1'' @ rest6)"
    using report_starts_with_header [of "[mismatchedArtifact]"] m by blast
  show ?thesis
    unfolding r0 r6
    by (simp add: reportHeader_def VERSION_STRING_def getLocalTime_def platformAt_def
        examplePlatform_def)
qed

text \<open>
  C2, amended: two runs over identical evidence and the same case id compose
  byte-identical reports, and so identical self-hashes, when the two platforms they
  run on agree on five things: they print every instant as the same local date and
  time (\<open>toLocaleString\<close>); they print every number as the same string
  (\<open>numberToString\<close>); they print the native \<open>Object\<close> constructor as the same string
  (\<open>objectCtorToString\<close>, which module 1 compares with the MIME type of a file whose
  extension is \<open>constructor\<close>); the times at which the two runs start print as the same
  \<open>DATE\<close> line; and the clock readings module 2 takes leave every artifact's timestamp
  on the same side of the 5000 ms future threshold in both runs.
\<close>

theorem C2_determinism_amended:
  assumes "toLocaleString env1 = toLocaleString env2"
    and "numberToString env1 = numberToString env2"
    and "objectCtorToString env1 = objectCtorToString env2"
    and "toLocaleString env1 (now env1 0) = toLocaleString env2 (now env2 0)"
    and "\<forall>i < length evidence.
           (timestamp (evidence ! i) > now env1 (Suc i) + 5000)
           = (timestamp (evidence ! i) > now env2 (Suc i) + 5000)"
  shows "runConstitutionalAnalysis env1 evidence cid = runConstitutionalAnalysis env2 evidence cid"
proof -
  have "brain2_loop (after_reads 1 env1) 0 evidence = brain2_loop (after_reads 1 env2) 0 evidence"
    by (rule brain2_loop_cong) (use assms(5) in \<open>simp add: after_reads_def\<close>)
  then have b2: "runBrain2 (after_reads 1 env1) evidence = runBrain2 (after_reads 1 env2) evidence"
    by (simp add: runBrain2_def)
  have b1: "runBrain1 env1 evidence = runBrain1 env2 evidence"
    using assms(3) by (rule runBrain1_cong)
  have b5: "runBrain5 env1 evidence = runBrain5 env2 evidence"
    using assms(1,2) by (rule runBrain5_cong)
  have b7: "runBrain7 env1 evidence = runBrain7 env2 evidence"
    using assms(2) by (rule runBrain7_cong)
  have bo: "brainOutputs env1 evidence = brainOutputs env2 evidence"
    unfolding brainOutputs_def b1 b2 b5 b7 by (rule refl)
  have hd: "reportHeader env1 cid = reportHeader env2 cid"
    using assms(4) by (simp add: reportHeader_def getLocalTime_def)
  have "reportBody env1 evidence cid = reportBody env2 evidence cid"
    unfolding reportBody_def bo hd by (rule refl)
  then show ?thesis
    by (simp add: runConstitutionalAnalysis_def)
qed

theorem C2_determinism_witness:
  "now (platformAt 0) 1 \<noteq> now (examplePlatform\<lparr>now := (\<lambda>k. if k = 0 then 0 else 1000)\<rparr>) 1
   \<and> runConstitutionalAnalysis (platformAt 0) [mismatchedArtifact] ''case-1''
       = runConstitutionalAnalysis (examplePlatform\<lparr>now := (\<lambda>k. if k = 0 then 0 else 1000)\<rparr>)
           [mismatchedArtifact] ''case-1''"
proof -
  have "runConstitutionalAnalysis (platformAt 0) [mismatchedArtifact] ''case-1''
       = runConstitutionalAnalysis (examplePlatform\<lparr>now := (\<lambda>k. if k = 0 then 0 else 1000)\<rparr>)
           [mismatchedArtifact] ''case-1''"
    by (rule C2_determinism_amended)
       (simp_all add: platformAt_def mismatchedArtifact_def)
  then show ?thesis
    by (simp add: platformAt_def)
qed

subsection \<open>C3: the dishonesty matrix and module 1's count\<close>

text \<open>
  C3 at its failing input, a file named \<open>x.pdf\<close> that declares \<open>image/png\<close>: module 1
  counts one mismatch and its section of the report warns of one contradiction, while
  the dishonesty matrix of the same report states that none was detected.
\<close>

theorem C3_matrix_ignores_count:
  "contradictionsFound examplePlatform [mismatchedArtifact] = Inr 1
   \<and> runBrain1 examplePlatform [mismatchedArtifact]
       = Inr ''BRAIN 1 (CONTRADICTION): ACTIVE\<newline>[CRITICAL] MIME/Extension Mismatch: x.pdf (.pdf) identified as image/png. Possible Tamper.\<newline>\<newline>WARNING: 1 contradictions detected. Integrity suspicious.\<newline>''
   \<and> (\<exists>pre. reportBody examplePlatform [mismatchedArtifact] ''case-1''
         = Inr (pre @ ''4. DISHONESTY DETECTION MATRIX\<newline>------------------------------\<newline>Contradictions: 0 detected in metadata.\<newline>Omissions: Cannot determine without external reference.\<newline>Tampering: None detected by Brain 2.\<newline>\<newline>SEALED ORIGINAL - VERUM OMNIS\<newline>''))"
proof -
  have loop: "brain1_loop examplePlatform (''BRAIN 1 (CONTRADICTION): ACTIVE\<newline>'', 0) [mismatchedArtifact]
      = Inr (''BRAIN 1 (CONTRADICTION): ACTIVE\<newline>[CRITICAL] MIME/Extension Mismatch: x.pdf (.pdf) identified as image/png. Possible Tamper.\<newline>'', 1)"
    by (simp add: brain1_step_def extension_def mismatchedArtifact_def
        lastSegment_def toLowerCase_def toLowerChar_def mimeMapLookup_def mimeMap_def
        startsWith_def show_opt_def)
  have one: "natToString (Suc 0) = ''1''"
    by (simp add: natToString.simps digit_def)
  have count: "contradictionsFound examplePlatform [mismatchedArtifact] = Inr 1"
    unfolding contradictionsFound_def loop by simp
  have warned: "runBrain1 examplePlatform [mismatchedArtifact]
       = Inr ''BRAIN 1 (CONTRADICTION): ACTIVE\<newline>[CRITICAL] MIME/Extension Mismatch: x.pdf (.pdf) identified as image/png. Possible Tamper.\<newline>\<newline>WARNING: 1 contradictions detected. Integrity suspicious.\<newline>''"
    unfolding runBrain1_def loop by (simp add: one)
  have "\<exists>pre. reportBody examplePlatform [mismatchedArtifact] ''case-1''
         = Inr (pre @ dishonestyMatrix @ ''SEALED ORIGINAL - VERUM OMNIS\<newline>'')"
    by (rule reportBody_shape) (simp add: mismatchedArtifact_def)
  then have "\<exists>pre. reportBody examplePlatform [mismatchedArtifact] ''case-1''
         = Inr (pre @ ''4. DISHONESTY DETECTION MATRIX\<newline>------------------------------\<newline>Contradictions: 0 detected in metadata.\<newline>Omissions: Cannot determine without external reference.\<newline>Tampering: None detected by Brain 2.\<newline>\<newline>SEALED ORIGINAL - VERUM OMNIS\<newline>'')"
    by (simp add: dishonestyMatrix_def contradictionsLine_def)
  with count warned show ?thesis
    by (intro conjI)
qed

subsection \<open>C4: the self-hash\<close>

text \<open>
  C4: for every evidence list and case id, a report the composer returns is its body
  followed by one terminal line; that line is \<open>SHA-512:\<close> followed by the digest of
  exactly the text that precedes the line, which is the whole body and does not contain
  the line itself.  The composer returns a report for every evidence list whose
  artifacts carry the MIME type string that \<open>EvidenceArtifact\<close> declares.
\<close>

theorem C4_self_hash:
  "(runConstitutionalAnalysis env evidence cid = Inr r \<longrightarrow>
        r = precedingText r @ terminalLine r
      \<and> terminalLine r = ''SHA-512:'' @ sha512 (precedingText r) @ ''\<newline>''
      \<and> reportBody env evidence cid = Inr (precedingText r))
   \<and> ((\<forall>e \<in> set evidence. mimeType e \<noteq> None) \<longrightarrow>
        (\<exists>r'. runConstitutionalAnalysis env evidence cid = Inr r'))"
proof (intro conjI impI)
  assume "\<forall>e \<in> set evidence. mimeType e \<noteq> None"
  then obtain body where "reportBody env evidence cid = Inr body"
    using reportBody_total by blast
  then show "\<exists>r'. runConstitutionalAnalysis env evidence cid = Inr r'"
    by (simp add: runConstitutionalAnalysis_def)
next
  assume run: "runConstitutionalAnalysis env evidence cid = Inr r"
  then obtain b where body: "reportBody env evidence cid = Inr b"
    and r: "r = b @ ''SHA-512:'' @ sha512 b @ ''\<newline>''"
    using report_Inr_shape by blast
  obtain pre where b: "b = pre @ dishonestyMatrix @ ''SEALED ORIGINAL - VERUM OMNIS\<newline>''"
    using body reportBody_Inr_shape by blast
  define l where "l = ''SHA-512:'' @ sha512 b"
  have rl: "r = b @ l @ ''\<newline>''"
    by (simp add: r l_def)
  have "CHR ''\<newline>'' \<notin> set l"
    using sha512_no_newline [of b] by (simp add: l_def)
  moreover have "b = [] \<or> last b = CHR ''\<newline>''"
    by (simp add: b)
  ultimately have t: "terminalLine (b @ l @ ''\<newline>'') = l @ ''\<newline>''"
    and p: "precedingText (b @ l @ ''\<newline>'') = b"
    by (rule terminal_split)+
  show "r = precedingText r @ terminalLine r"
    unfolding rl t p by simp
  show "terminalLine r = ''SHA-512:'' @ sha512 (precedingText r) @ ''\<newline>''"
    unfolding rl t p by (simp add: l_def)
  show "reportBody env evidence cid = Inr (precedingText r)"
    unfolding rl p by (rule body)
qed

theorem C4_self_hash_witness:
  "mimeType mismatchedArtifact = Some ''image/png''
   \<and> (\<exists>r. runConstitutionalAnalysis examplePlatform [mismatchedArtifact] ''case-1'' = Inr r
          \<and> r = precedingText r @ terminalLine r
          \<and> terminalLine r = ''SHA-512:'' @ sha512 (precedingText r) @ ''\<newline>''
          \<and> reportBody examplePlatform [mismatchedArtifact] ''case-1'' = Inr (precedingText r))"
proof -
  have m: "\<forall>e \<in> set [mismatchedArtifact]. mimeType e \<noteq> None"
    by (simp add: mismatchedArtifact_def)
  obtain r where r: "runConstitutionalAnalysis examplePlatform [mismatchedArtifact] ''case-1'' = Inr r"
    using C4_self_hash [of examplePlatform "[mismatchedArtifact]" "''case-1''"] m by blast
  have "r = precedingText r @ terminalLine r
      \<and> terminalLine r = ''SHA-512:'' @ sha512 (precedingText r) @ ''\<newline>''
      \<and> reportBody examplePlatform [mismatchedArtifact] ''case-1'' = Inr (precedingText r)"
    using C4_self_hash [of examplePlatform "[mismatchedArtifact]" "''case-1''" r] r by blast
  with r show ?thesis
    by (auto simp: mismatchedArtifact_def)
qed

subsection \<open>C5: custody entries at sealing\<close>

text \<open>
  C5 at its failing input: one file is ingested, analysed, and the case is sealed and
  saved.  The artifact's chain of custody, in the application and in the stored
  record, is the single \<open>CAPTURED\<close> entry of ingestion; no \<open>SEALED\<close> entry follows it.
\<close>

theorem C5_no_sealed_entry:
  "length (evidenceList exampleSealed) = 1
   \<and> custodyActions (evidenceList exampleSealed) = [''CAPTURED'']
   \<and> map_option (\<lambda>r. custodyActions (evidence_r r))
        (get (cases_db exampleSealed) (caseId exampleSealed)) = Some [''CAPTURED'']
   \<and> ''SEALED'' \<notin> set (custodyActions (evidenceList exampleSealed))"
proof -
  have ev: "custodyActions (evidenceList exampleAnalysed) = [''CAPTURED'']"
    and len: "length (evidenceList exampleAnalysed) = 1"
    by (simp_all add: exampleAnalysed_def runAnalysis_evidence handleFileUpload_def
        initialState_def newEvidence_def custodyActions_def)
  obtain r where r: "get (cases_db (handleSaveCase examplePlatform exampleAnalysed))
        (caseId exampleAnalysed) = Some r"
    and er: "evidence_r r = evidenceList exampleAnalysed"
    using handleSaveCase_stored by blast
  show ?thesis
    using ev len r er
    by (simp add: exampleSealed_def handleSaveCase_evidence handleSaveCase_caseId)
qed

subsection \<open>C6: a persisted record\<close>

text \<open>
  C6 as stated fails.  The stored case \<open>case-1\<close> is loaded, one more file is ingested,
  and the case is sealed and saved again: the record stored under \<open>case-1\<close> is no longer
  the one that was persisted, and its evidence list has grown from none to one.
\<close>

theorem C6_record_replaced_counterexample:
  "get (cases_db exampleStored) ''case-1'' = Some exampleRecord
   \<and> get (cases_db exampleResealed) ''case-1'' \<noteq> Some exampleRecord
   \<and> map_option (\<lambda>r. length (evidence_r r)) (get (cases_db exampleStored) ''case-1'') = Some 0
   \<and> map_option (\<lambda>r. length (evidence_r r)) (get (cases_db exampleResealed) ''case-1'') = Some 1"
proof -
  define s where "s = handle examplePlatform (FileUpload [exampleFile])
          (handle examplePlatform (LoadCase exampleRecord) exampleStored)"
  have id: "caseId s = ''case-1''"
    by (simp add: s_def handleFileUpload_def handleLoadCase_def exampleRecord_def)
  have len: "length (evidenceList s) = 1"
    by (simp add: s_def handleFileUpload_def handleLoadCase_def exampleRecord_def)
  obtain r where r: "get (cases_db (handleSaveCase examplePlatform s)) (caseId s) = Some r"
    and er: "evidence_r r = evidenceList s"
    using handleSaveCase_stored by blast
  have re: "exampleResealed = handleSaveCase examplePlatform s"
    by (simp add: exampleResealed_def s_def)
  have st: "get (cases_db exampleStored) ''case-1'' = Some exampleRecord"
    by (simp add: exampleStored_def cases_db_refreshSavedCases get_def exampleRecord_def)
  have "evidence_r exampleRecord = []"
    by (simp add: exampleRecord_def)
  with r er len id re st show ?thesis
    by auto
qed

text \<open>
  C6, amended: a persisted CaseRecord stays as it is under ingestion, analysis,
  loading, scanning and emptying the evidence list, and under a save made for another
  case id; a later save under its own case id replaces it (the store's \<open>put\<close> is keyed
  by the id) and purging the store removes it.  Loading a stored case back leaves the
  store as it is and reconstructs only the preview references: the report text and the
  case id on display are the stored ones, and each loaded artifact is the stored one up
  to its preview reference.
\<close>

theorem C6_record_amended:
  assumes "get (cases_db s) k = Some r"
  shows "(ev \<noteq> SaveCase \<and> ev \<noteq> ClearStorage \<longrightarrow> get (cases_db (handle env ev s)) k = Some r)
     \<and> (caseId s \<noteq> k \<longrightarrow> get (cases_db (handle env SaveCase s)) k = Some r)
     \<and> cases_db (handle env (LoadCase r) s) = cases_db s
     \<and> report (handle env (LoadCase r) s) = report_r r
     \<and> caseId (handle env (LoadCase r) s) = id_r r
     \<and> map (\<lambda>e. e\<lparr>previewUrl := None\<rparr>) (evidenceList (handle env (LoadCase r) s))
         = map (\<lambda>e. e\<lparr>previewUrl := None\<rparr>) (evidence_r r)"
proof -
  have "ev \<noteq> SaveCase \<and> ev \<noteq> ClearStorage \<longrightarrow> get (cases_db (handle env ev s)) k = Some r"
    using assms by (simp add: cases_db_unchanged)
  moreover have "caseId s \<noteq> k \<longrightarrow> get (cases_db (handle env SaveCase s)) k = Some r"
    using assms handleSaveCase_other [of k s env] by auto
  moreover have "report (handle env (LoadCase r) s) = report_r r"
    and "caseId (handle env (LoadCase r) s) = id_r r"
    by (simp_all add: handleLoadCase_def)
  ultimately show ?thesis
    by (simp add: cases_db_handleLoadCase handleLoadCase_evidence)
qed

theorem C6_record_witness:
  "get (cases_db exampleStored) ''case-1'' = Some exampleRecord
   \<and> get (cases_db (handle examplePlatform EmptyEvidence exampleStored)) ''case-1'' = Some exampleRecord
   \<and> get (cases_db (handle examplePlatform SaveCase exampleStored)) ''case-1'' = Some exampleRecord
   \<and> report (handle examplePlatform (LoadCase exampleRecord) exampleStored) = ''R''"
proof -
  have st: "get (cases_db exampleStored) ''case-1'' = Some exampleRecord"
    by (simp add: exampleStored_def cases_db_refreshSavedCases get_def exampleRecord_def)
  have id: "caseId exampleStored \<noteq> ''case-1''"
    by (simp add: exampleStored_def caseId_refreshSavedCases initialState_def examplePlatform_def)
  have "report_r exampleRecord = ''R''"
    by (simp add: exampleRecord_def)
  with st id C6_record_amended [OF st, of EmptyEvidence examplePlatform]
    C6_record_amended [OF st, of SaveCase examplePlatform]
  show ?thesis by simp
qed

subsection \<open>C7: seal verification\<close>

text \<open>
  C7: a scanned candidate is compared with the stored seals by equality of strings.
  If some stored case has the candidate as its seal, a stored case with exactly that
  seal is loaded (the one and only such case, when no two stored cases share the
  seal), with its report text and case id, and the match is announced.  For every
  other candidate the tamper-or-unknown warning is shown and evidence, report and
  case id stay as they were.
\<close>

theorem C7_verification:
  "((\<exists>c \<in> set (savedCases s). caseHash c = data) \<longrightarrow>
      (\<exists>c \<in> set (savedCases s). caseHash c = data
         \<and> onScanSuccess env data s
             = handleLoadCase env c
                 (s\<lparr>showScanner := False,
                    alerts := alerts s
                      @ [''INTEGRITY VERIFIED: Matches Case '' @ [CHR 0x22] @ name_r c
                           @ [CHR 0x22] @ '' \<newline>ID: '' @ id_r c]\<rparr>)
         \<and> report (onScanSuccess env data s) = report_r c
         \<and> caseId (onScanSuccess env data s) = id_r c))
   \<and> (\<forall>c \<in> set (savedCases s).
         caseHash c = data \<and> (\<forall>c' \<in> set (savedCases s). caseHash c' = data \<longrightarrow> c' = c) \<longrightarrow>
         report (onScanSuccess env data s) = report_r c
         \<and> caseId (onScanSuccess env data s) = id_r c)
   \<and> ((\<forall>c \<in> set (savedCases s). caseHash c \<noteq> data) \<longrightarrow>
        onScanSuccess env data s
          = s\<lparr>showScanner := False,
              alerts := alerts s
                @ [''WARNING: TAMPER DETECTED OR UNKNOWN SEAL.\<newline>Hash: '' @ data]\<rparr>
        \<and> evidenceList (onScanSuccess env data s) = evidenceList s
        \<and> report (onScanSuccess env data s) = report s
        \<and> caseId (onScanSuccess env data s) = caseId s)"
proof -
  have match: "\<exists>c \<in> set (savedCases s). caseHash c = data
         \<and> onScanSuccess env data s
             = handleLoadCase env c
                 (s\<lparr>showScanner := False,
                    alerts := alerts s
                      @ [''INTEGRITY VERIFIED: Matches Case '' @ [CHR 0x22] @ name_r c
                           @ [CHR 0x22] @ '' \<newline>ID: '' @ id_r c]\<rparr>)
         \<and> report (onScanSuccess env data s) = report_r c
         \<and> caseId (onScanSuccess env data s) = id_r c"
    if "\<exists>c \<in> set (savedCases s). caseHash c = data"
  proof -
    from that have "find (\<lambda>c. caseHash c = data) (savedCases s) \<noteq> None"
      by (auto simp: find_None_iff)
    then obtain c where f: "find (\<lambda>c. caseHash c = data) (savedCases s) = Some c"
      by blast
    then have m: "c \<in> set (savedCases s)" and h: "caseHash c = data"
      by (auto simp: find_Some_iff)
    have o: "onScanSuccess env data s
             = handleLoadCase env c
                 (s\<lparr>showScanner := False,
                    alerts := alerts s
                      @ [''INTEGRITY VERIFIED: Matches Case '' @ [CHR 0x22] @ name_r c
                           @ [CHR 0x22] @ '' \<newline>ID: '' @ id_r c]\<rparr>)"
      by (simp add: onScanSuccess_def f)
    then have "report (onScanSuccess env data s) = report_r c"
      and "caseId (onScanSuccess env data s) = id_r c"
      by (simp_all add: handleLoadCase_def)
    with m h o show ?thesis by blast
  qed
  have unique: "report (onScanSuccess env data s) = report_r c
         \<and> caseId (onScanSuccess env data s) = id_r c"
    if m: "c \<in> set (savedCases s)" and h: "caseHash c = data"
      and u: "\<forall>c' \<in> set (savedCases s). caseHash c' = data \<longrightarrow> c' = c" for c
  proof -
    obtain c0 where "c0 \<in> set (savedCases s)" and "caseHash c0 = data"
      and "report (onScanSuccess env data s) = report_r c0"
      and "caseId (onScanSuccess env data s) = id_r c0"
      using match m h by blast
    moreover from this u have "c0 = c" by blast
    ultimately show ?thesis by simp
  qed
  have nomatch: "onScanSuccess env data s
          = s\<lparr>showScanner := False,
              alerts := alerts s
                @ [''WARNING: TAMPER DETECTED OR UNKNOWN SEAL.\<newline>Hash: '' @ data]\<rparr>
        \<and> evidenceList (onScanSuccess env data s) = evidenceList s
        \<and> report (onScanSuccess env data s) = report s
        \<and> caseId (onScanSuccess env data s) = caseId s"
    if "\<forall>c \<in> set (savedCases s). caseHash c \<noteq> data"
  proof -
    have "find (\<lambda>c. caseHash c = data) (savedCases s) = None"
      using that by (simp add: find_None_iff)
    then show ?thesis
      by (simp add: onScanSuccess_def)
  qed
  from match unique nomatch show ?thesis
    by (intro conjI impI ballI) blast+
qed

text \<open>On a store that holds the example case: the seal itself loads the case; the
  first ten characters of the seal, and the seal with one more character after it,
  load nothing and raise the warning.\<close>

theorem C7_verification_witness:
  "report (onScanSuccess examplePlatform (caseHash exampleRecord) exampleStored) = ''R''
   \<and> caseId (onScanSuccess examplePlatform (caseHash exampleRecord) exampleStored) = ''case-1''
   \<and> onScanSuccess examplePlatform (take 10 (caseHash exampleRecord)) exampleStored
       = exampleStored\<lparr>showScanner := False,
           alerts := [''WARNING: TAMPER DETECTED OR UNKNOWN SEAL.\<newline>Hash: 74aee5e193'']\<rparr>
   \<and> report (onScanSuccess examplePlatform (caseHash exampleRecord @ ''0'') exampleStored)
       = report exampleStored"
proof -
  have saved: "savedCases exampleStored = [exampleRecord]"
    by (simp add: exampleStored_def refreshSavedCases_def loadCases_def getAll_def)
  have al: "alerts exampleStored = []"
    by (simp add: exampleStored_def refreshSavedCases_def initialState_def)
  have "report (onScanSuccess examplePlatform (caseHash exampleRecord) exampleStored)
          = report_r exampleRecord
        \<and> caseId (onScanSuccess examplePlatform (caseHash exampleRecord) exampleStored)
          = id_r exampleRecord"
    using C7_verification [of exampleStored "caseHash exampleRecord" examplePlatform,
        THEN conjunct2, THEN conjunct1]
    by (simp add: saved)
  moreover have "onScanSuccess examplePlatform (take 10 (caseHash exampleRecord)) exampleStored
       = exampleStored\<lparr>showScanner := False,
           alerts := alerts exampleStored @ [''WARNING: TAMPER DETECTED OR UNKNOWN SEAL.\<newline>Hash: ''
              @ take 10 (caseHash exampleRecord)]\<rparr>"
    using C7_verification [of exampleStored "take 10 (caseHash exampleRecord)" examplePlatform,
        THEN conjunct2, THEN conjunct2]
    by (simp add: saved exampleRecord_def)
  moreover have "report (onScanSuccess examplePlatform (caseHash exampleRecord @ ''0'') exampleStored)
       = report exampleStored"
    using C7_verification [of exampleStored "caseHash exampleRecord @ ''0''" examplePlatform,
        THEN conjunct2, THEN conjunct2]
    by (simp add: saved)
  ultimately show ?thesis
    by (simp add: al exampleRecord_def)
qed

subsection \<open>C8: jurisdiction mapping\<close>

lemma toFixed_near_one: "toFixed examplePlatform 2 (1023 / 1024) = ''1.00''"
  by (simp add: toFixed_def toFixedAbs_def pointed_def zeroPadded_def natToString.simps digit_def)

lemma truncated_near_one: "spec_truncated 2 (1023 / 1024) = ''0.99''"
  by (simp add: spec_truncated_def spec_truncatedAbs_def pointed_def zeroPadded_def
      natToString.simps digit_def)

lemma toFixed_zero: "toFixed env 2 0 = ''0.00''"
  by (simp add: toFixed_def toFixedAbs_def pointed_def zeroPadded_def natToString.simps digit_def)

text \<open>
  C8 as stated fails in one respect.  At latitude 0.9990234375 (a double), outside both
  boxes, module 7 reports \<open>1.00\<close>: \<open>toFixed(2)\<close> rounds to the nearest hundredth, and the
  latitude cut off after two decimals would read \<open>0.99\<close>.
\<close>

theorem C8_truncation_counterexample:
  "runBrain7 examplePlatform [locatedArtifact (1023 / 1024) 0]
     = ''BRAIN 7 (LEGAL MAPPING): ACTIVE\<newline>Detected Jurisdiction: INTERNATIONAL / UNKNOWN (Lat: 1.00)\<newline>''
   \<and> runBrain7 examplePlatform [locatedArtifact (1023 / 1024) 0]
     \<noteq> ''BRAIN 7 (LEGAL MAPPING): ACTIVE\<newline>Detected Jurisdiction: INTERNATIONAL / UNKNOWN (Lat: ''
         @ spec_truncated 2 (1023 / 1024) @ '')\<newline>''"
  by (simp add: runBrain7_def brain7_location_def locatedArtifact_def toFixed_near_one
      truncated_near_one)

text \<open>
  C8, amended: module 7 takes the session location of the first artifact in ingestion
  order that carries one.  Latitude strictly between 22 and 26 with longitude strictly
  between 51 and 57 yields jurisdiction A with its statute citation; latitude strictly
  between -35 and -22 with longitude strictly between 16 and 33 yields jurisdiction B
  with its citation; any other location yields INTERNATIONAL / UNKNOWN with the latitude
  rounded to two decimals as \<open>toFixed(2)\<close> prints it; no located artifact yields
  UNDETERMINED.
\<close>

theorem C8_jurisdiction_amended:
  "brain7_location evidence = first_located evidence
   \<and> (first_located evidence = None \<longrightarrow>
        runBrain7 env evidence
          = ''BRAIN 7 (LEGAL MAPPING): ACTIVE\<newline>Jurisdiction: UNDETERMINED (No GPS)\<newline>'')
   \<and> (\<forall>loc. first_located evidence = Some loc \<longrightarrow>
        (22 < lat loc \<and> lat loc < 26 \<and> 51 < lng loc \<and> lng loc < 57 \<longrightarrow>
           runBrain7 env evidence
             = ''BRAIN 7 (LEGAL MAPPING): ACTIVE\<newline>Detected Jurisdiction: UNITED ARAB EMIRATES (Based on Coords)\<newline>Relevant Laws: Federal Law 32/2021 (Cybercrime), Article 84.\<newline>'')
        \<and> (- 35 < lat loc \<and> lat loc < - 22 \<and> 16 < lng loc \<and> lng loc < 33 \<longrightarrow>
           runBrain7 env evidence
             = ''BRAIN 7 (LEGAL MAPPING): ACTIVE\<newline>Detected Jurisdiction: SOUTH AFRICA (Based on Coords)\<newline>Relevant Laws: ECT Act 25 of 2002.\<newline>'')
        \<and> (\<not> (22 < lat loc \<and> lat loc < 26 \<and> 51 < lng loc \<and> lng loc < 57)
            \<and> \<not> (- 35 < lat loc \<and> lat loc < - 22 \<and> 16 < lng loc \<and> lng loc < 33) \<longrightarrow>
           runBrain7 env evidence
             = ''BRAIN 7 (LEGAL MAPPING): ACTIVE\<newline>Detected Jurisdiction: INTERNATIONAL / UNKNOWN (Lat: ''
                 @ toFixed env 2 (lat loc) @ '')\<newline>''))"
proof -
  have sel: "brain7_location evidence = first_located evidence"
    by (rule brain7_location_first)
  have none: "runBrain7 env evidence
          = ''BRAIN 7 (LEGAL MAPPING): ACTIVE\<newline>Jurisdiction: UNDETERMINED (No GPS)\<newline>''"
    if "first_located evidence = None"
    using that by (simp add: runBrain7_def sel)
  have boxA: "runBrain7 env evidence
             = ''BRAIN 7 (LEGAL MAPPING): ACTIVE\<newline>Detected Jurisdiction: UNITED ARAB EMIRATES (Based on Coords)\<newline>Relevant Laws: Federal Law 32/2021 (Cybercrime), Article 84.\<newline>''"
    if l: "first_located evidence = Some loc"
      and b: "22 < lat loc \<and> lat loc < 26 \<and> 51 < lng loc \<and> lng loc < 57" for loc
    using l b by (simp add: runBrain7_def sel)
  have boxB: "runBrain7 env evidence
             = ''BRAIN 7 (LEGAL MAPPING): ACTIVE\<newline>Detected Jurisdiction: SOUTH AFRICA (Based on Coords)\<newline>Relevant Laws: ECT Act 25 of 2002.\<newline>''"
    if l: "first_located evidence = Some loc"
      and b: "- 35 < lat loc \<and> lat loc < - 22 \<and> 16 < lng loc \<and> lng loc < 33" for loc
  proof -
    from b have "\<not> 22 < lat loc" by simp
    with l b show ?thesis by (simp add: runBrain7_def sel)
  qed
  have other: "runBrain7 env evidence
             = ''BRAIN 7 (LEGAL MAPPING): ACTIVE\<newline>Detected Jurisdiction: INTERNATIONAL / UNKNOWN (Lat: ''
                 @ toFixed env 2 (lat loc) @ '')\<newline>''"
    if l: "first_located evidence = Some loc"
      and a: "\<not> (22 < lat loc \<and> lat loc < 26 \<and> 51 < lng loc \<and> lng loc < 57)"
      and b: "\<not> (- 35 < lat loc \<and> lat loc < - 22 \<and> 16 < lng loc \<and> lng loc < 33)" for loc
    using l a b by (simp add: runBrain7_def sel)
  from sel none boxA boxB other show ?thesis
    by (intro conjI impI allI) blast+
qed

text \<open>The inputs the claim names: (24, 54), (-30, 25), (0, 0), and no location; and an
  unlocated artifact ingested before a located one.\<close>

theorem C8_jurisdiction_witness:
  "runBrain7 examplePlatform [locatedArtifact 24 54]
     = ''BRAIN 7 (LEGAL MAPPING): ACTIVE\<newline>Detected Jurisdiction: UNITED ARAB EMIRATES (Based on Coords)\<newline>Relevant Laws: Federal Law 32/2021 (Cybercrime), Article 84.\<newline>''
   \<and> runBrain7 examplePlatform [locatedArtifact (- 30) 25]
     = ''BRAIN 7 (LEGAL MAPPING): ACTIVE\<newline>Detected Jurisdiction: SOUTH AFRICA (Based on Coords)\<newline>Relevant Laws: ECT Act 25 of 2002.\<newline>''
   \<and> runBrain7 examplePlatform [locatedArtifact 0 0]
     = ''BRAIN 7 (LEGAL MAPPING): ACTIVE\<newline>Detected Jurisdiction: INTERNATIONAL / UNKNOWN (Lat: 0.00)\<newline>''
   \<and> runBrain7 examplePlatform [mismatchedArtifact]
     = ''BRAIN 7 (LEGAL MAPPING): ACTIVE\<newline>Jurisdiction: UNDETERMINED (No GPS)\<newline>''
   \<and> runBrain7 examplePlatform [mismatchedArtifact, locatedArtifact 24 54]
     = ''BRAIN 7 (LEGAL MAPPING): ACTIVE\<newline>Detected Jurisdiction: UNITED ARAB EMIRATES (Based on Coords)\<newline>Relevant Laws: Federal Law 32/2021 (Cybercrime), Article 84.\<newline>''"
proof -
  have a: "first_located [locatedArtifact 24 54] = Some \<lparr>lat = 24, lng = 54, accuracy = 5\<rparr>"
    and b: "first_located [locatedArtifact (- 30) 25] = Some \<lparr>lat = - 30, lng = 25, accuracy = 5\<rparr>"
    and c: "first_located [locatedArtifact 0 0] = Some \<lparr>lat = 0, lng = 0, accuracy = 5\<rparr>"
    and d: "first_located [mismatchedArtifact] = None"
    and e: "first_located [mismatchedArtifact, locatedArtifact 24 54]
              = Some \<lparr>lat = 24, lng = 54, accuracy = 5\<rparr>"
    by (simp_all add: locatedArtifact_def mismatchedArtifact_def)
  show ?thesis
    using C8_jurisdiction_amended [of "[locatedArtifact 24 54]" examplePlatform, unfolded a]
      C8_jurisdiction_amended [of "[locatedArtifact (- 30) 25]" examplePlatform, unfolded b]
      C8_jurisdiction_amended [of "[locatedArtifact 0 0]" examplePlatform, unfolded c]
      C8_jurisdiction_amended [of "[mismatchedArtifact]" examplePlatform, unfolded d]
      C8_jurisdiction_amended [of "[mismatchedArtifact, locatedArtifact 24 54]" examplePlatform,
        unfolded e]
    by (simp add: toFixed_zero)
qed

subsection \<open>C9: no unhandled failure\<close>

text \<open>
  C9 as stated fails.  An artifact named \<open>x.pdf\<close> with no MIME type makes module 1
  throw a \<open>TypeError\<close> where it reads \<open>ev.mimeType.startsWith\<close>; nothing catches it, and
  the composer returns no report.
\<close>

theorem C9_missing_mime_counterexample:
  "filename artifactWithoutMime = Some ''x.pdf''
   \<and> mimeType artifactWithoutMime = None
   \<and> runBrain1 examplePlatform [artifactWithoutMime] = Inl TypeError
   \<and> runConstitutionalAnalysis examplePlatform [artifactWithoutMime] ''case-1'' = Inl TypeError"
proof -
  have "brain1_loop examplePlatform (''BRAIN 1 (CONTRADICTION): ACTIVE\<newline>'', 0) [artifactWithoutMime]
      = Inl TypeError"
    by (simp add: brain1_step_def extension_def artifactWithoutMime_def mismatchedArtifact_def
        lastSegment_def toLowerCase_def toLowerChar_def mimeMapLookup_def mimeMap_def)
  then have "runBrain1 examplePlatform [artifactWithoutMime] = Inl TypeError"
    by (simp add: runBrain1_def)
  then show ?thesis
    by (simp add: runConstitutionalAnalysis_def reportBody_def brainOutputs_def
        artifactWithoutMime_def mismatchedArtifact_def)
qed

text \<open>
  C9, amended: for every evidence list whose artifacts each carry a MIME type string
  (which may be empty), whatever their filenames and locations and also when the list
  is empty, and for every case id and platform: hashing yields a digest of 128
  characters; modules 1 and 5, the two that can throw, return their sections; the
  composer returns the report made of the header, the compliance tests, the manifest,
  the nine sections in module order, the verification doctrine, the dishonesty matrix
  and the seal line, followed by the line with the digest of all of that; and the seal
  of that report is computed, is 128 characters long and is the one in the record
  \<open>saveCase\<close> returns.  On the empty evidence list the report is the text given here
  after the header: the manifest section has its two heading lines and no artifact
  line, and module 5's section is its heading and \<open>No data.\<close>
\<close>

theorem C9_pipeline_amended:
  assumes "\<forall>e \<in> set evidence. mimeType e \<noteq> None"
  shows "length (sha512 data) = 128
   \<and> (\<exists>b1 b5 body r.
         runBrain1 env evidence = Inr b1
       \<and> runBrain5 env evidence = Inr b5
       \<and> body = reportHeader env cid @ complianceTests @ manifest evidence
                @ ''2. 9-BRAIN ARCHITECTURE OUTPUTS\<newline>''
                @ ''-------------------------------\<newline>''
                @ b1 @ ''\<newline>''
                @ runBrain2 (after_reads 1 env) evidence @ ''\<newline>''
                @ runBrain3 evidence @ ''\<newline>''
                @ runBrain4 @ ''\<newline>''
                @ b5 @ ''\<newline>''
                @ runBrain6 @ ''\<newline>''
                @ runBrain7 env evidence @ ''\<newline>''
                @ runBrain8 evidence @ ''\<newline>''
                @ runBrain9 @ ''\<newline>\<newline>''
                @ tripleVerification @ dishonestyMatrix
                @ ''SEALED ORIGINAL - VERUM OMNIS\<newline>''
       \<and> r = body @ ''SHA-512:'' @ sha512 body @ ''\<newline>''
       \<and> runConstitutionalAnalysis env evidence cid = Inr r
       \<and> caseHash (fst (saveCase env db cid nm r evidence)) = caseSeal r evidence
       \<and> length (caseSeal r evidence) = 128)
   \<and> (\<exists>body.
         body = reportHeader env cid
              @ ''CONSTITUTIONAL COMPLIANCE TESTS:\<newline>''
              @ ''----------------------------------------\<newline>''
              @ ''Test 1: Constitution Hash Verification... PASS [45f981b0...]\<newline>''
              @ ''Test 2: Guardianship Treaty... PASS\<newline>''
              @ ''Test 3: Zero-Trust Architecture... PASS\<newline>''
              @ ''Test 4: Offline Enforcement... PASS\<newline>''
              @ ''\<newline>''
              @ ''1. EVIDENCE MANIFEST & ANCHORING\<newline>''
              @ ''--------------------------------\<newline>''
              @ ''\<newline>''
              @ ''2. 9-BRAIN ARCHITECTURE OUTPUTS\<newline>''
              @ ''-------------------------------\<newline>''
              @ ''BRAIN 1 (CONTRADICTION): ACTIVE\<newline>''
              @ ''No structural contradictions detected in metadata layer.\<newline>''
              @ ''\<newline>''
              @ ''BRAIN 2 (FORENSICS): ACTIVE\<newline>''
              @ ''\<newline>''
              @ ''BRAIN 3 (COMMS INTEGRITY): ACTIVE\<newline>''
              @ ''Continuity Check: Single artifact. Cannot verify conversation flow.\<newline>''
              @ ''\<newline>''
              @ ''BRAIN 4 (LINGUISTICS): OFFLINE\<newline>''
              @ ''- Status: Insufficient local NLP compute for behavioral profiling.\<newline>''
              @ ''- Action: Upload to Legal Assistant for pattern matching.\<newline>''
              @ ''\<newline>''
              @ ''BRAIN 5 (TIMELINE & GEO): ACTIVE\<newline>''
              @ ''No data.\<newline>''
              @ ''\<newline>''
              @ ''BRAIN 6 (FINANCIAL): OFFLINE\<newline>''
              @ ''- Status: No Excel/CSV parser loaded in immutable core.\<newline>''
              @ ''\<newline>''
              @ ''BRAIN 7 (LEGAL MAPPING): ACTIVE\<newline>''
              @ ''Jurisdiction: UNDETERMINED (No GPS)\<newline>''
              @ ''\<newline>''
              @ ''BRAIN 8 (AUDIO/VOICE): OFFLINE\<newline>''
              @ ''- 0 AV artifacts detected.\<newline>''
              @ ''- Deepfake analysis requires Cloud Uplink.\<newline>''
              @ ''\<newline>''
              @ ''BRAIN 9 (R&D): NON-VOTING ADVISORY\<newline>''
              @ ''- Hypothesis: Cross-reference metadata with external weather logs.\<newline>''
              @ ''- Recommendation: Verify SHA-512 hashes manually via independent terminal.\<newline>''
              @ ''\<newline>''
              @ ''\<newline>''
              @ ''3. TRIPLE VERIFICATION DOCTRINE\<newline>''
              @ ''-------------------------------\<newline>''
              @ ''A) THESIS: Evidence suggests a collection of digital artifacts has been preserved.\<newline>''
              @ ''B) ANTITHESIS: Artifacts could be fabricated if source device was compromised before hashing.\<newline>''
              @ ''C) SYNTHESIS: Chain of custody valid from ingestion point. Content veracity: VERIFIED_DIGITALLY_ONLY.\<newline>''
              @ ''\<newline>''
              @ ''TV_THESIS: PASS\<newline>''
              @ ''TV_ANTITHESIS: PASS (Risks Acknowledged)\<newline>''
              @ ''TV_SYNTHESIS: PASS\<newline>''
              @ ''OVERALL: PASS\<newline>''
              @ ''\<newline>''
              @ ''4. DISHONESTY DETECTION MATRIX\<newline>''
              @ ''------------------------------\<newline>''
              @ ''Contradictions: 0 detected in metadata.\<newline>''
              @ ''Omissions: Cannot determine without external reference.\<newline>''
              @ ''Tampering: None detected by Brain 2.\<newline>''
              @ ''\<newline>''
              @ ''SEALED ORIGINAL - VERUM OMNIS\<newline>''
       \<and> runConstitutionalAnalysis env [] cid
           = Inr (body @ ''SHA-512:'' @ sha512 body @ ''\<newline>''))"
    (is "_ \<and> ?general \<and> ?empty")
proof -
  obtain b1 where b1: "runBrain1 env evidence = Inr b1"
    using assms runBrain1_total by blast
  obtain b5 where b5: "runBrain5 env evidence = Inr b5"
    using runBrain5_total by blast
  define body where "body = reportHeader env cid @ complianceTests @ manifest evidence
                @ ''2. 9-BRAIN ARCHITECTURE OUTPUTS\<newline>''
                @ ''-------------------------------\<newline>''
                @ b1 @ ''\<newline>''
                @ runBrain2 (after_reads 1 env) evidence @ ''\<newline>''
                @ runBrain3 evidence @ ''\<newline>''
                @ runBrain4 @ ''\<newline>''
                @ b5 @ ''\<newline>''
                @ runBrain6 @ ''\<newline>''
                @ runBrain7 env evidence @ ''\<newline>''
                @ runBrain8 evidence @ ''\<newline>''
                @ runBrain9 @ ''\<newline>\<newline>''
                @ tripleVerification @ dishonestyMatrix
                @ ''SEALED ORIGINAL - VERUM OMNIS\<newline>''"
  define r where "r = body @ ''SHA-512:'' @ sha512 body @ ''\<newline>''"
  have "reportBody env evidence cid = Inr body"
    by (simp add: reportBody_def brainOutputs_def b1 b5 body_def)
  then have run: "runConstitutionalAnalysis env evidence cid = Inr r"
    by (simp add: runConstitutionalAnalysis_def r_def)
  have seal: "caseHash (fst (saveCase env db cid nm r evidence)) = caseSeal r evidence"
    by (simp add: saveCase_def Let_def)
  have len: "length (caseSeal r evidence) = 128"
    by (simp add: caseSeal_def length_sha512)
  have general: ?general
    using b1 b5 body_def r_def run seal len by blast
  have one: "runBrain1 env [] = Inr ''BRAIN 1 (CONTRADICTION): ACTIVE\<newline>No structural contradictions detected in metadata layer.\<newline>''"
    by (simp add: runBrain1_def)
  have five: "runBrain5 env [] = Inr ''BRAIN 5 (TIMELINE & GEO): ACTIVE\<newline>No data.\<newline>''"
    by (simp add: runBrain5_def)
  have zero: "natToString 0 = ''0''"
    by (simp add: natToString.simps digit_def)
  have eight: "substring 8 CONSTITUTION_HASH = ''45f981b0''"
    by (simp add: CONSTITUTION_HASH_def eval_nat_numeral utf8_length_def)
  have empty: ?empty
    by (simp add: runConstitutionalAnalysis_def reportBody_def brainOutputs_def one five zero
        eight complianceTests_def manifest_def manifestLines_def runBrain2_def runBrain3_def
        runBrain4_def runBrain6_def runBrain7_def brain7_location_def runBrain8_def
        audioCount_def runBrain9_def tripleVerification_def dishonestyMatrix_def
        contradictionsLine_def)
  show ?thesis
    using general empty by (simp only: length_sha512 simp_thms)
qed

theorem C9_pipeline_witness:
  "mimeType mismatchedArtifact = Some ''image/png''
   \<and> (\<exists>b1 b5 r. runBrain1 examplePlatform [mismatchedArtifact] = Inr b1
          \<and> runBrain5 examplePlatform [mismatchedArtifact] = Inr b5
          \<and> runConstitutionalAnalysis examplePlatform [mismatchedArtifact] ''case-1'' = Inr r
          \<and> caseHash (fst (saveCase examplePlatform [] ''case-1'' ''Case 1'' r [mismatchedArtifact]))
              = caseSeal r [mismatchedArtifact]
          \<and> length (caseSeal r [mismatchedArtifact]) = 128)"
proof -
  have m: "\<forall>e \<in> set [mismatchedArtifact]. mimeType e \<noteq> None"
    by (simp add: mismatchedArtifact_def)
  have "\<exists>b1 b5 r. runBrain1 examplePlatform [mismatchedArtifact] = Inr b1
          \<and> runBrain5 examplePlatform [mismatchedArtifact] = Inr b5
          \<and> runConstitutionalAnalysis examplePlatform [mismatchedArtifact] ''case-1'' = Inr r
          \<and> caseHash (fst (saveCase examplePlatform [] ''case-1'' ''Case 1'' r [mismatchedArtifact]))
              = caseSeal r [mismatchedArtifact]
          \<and> length (caseSeal r [mismatchedArtifact]) = 128"
    using C9_pipeline_amended [OF m, of "''abc''" examplePlatform "''case-1''" "[]" "''Case 1''"]
    by blast
  then show ?thesis
    by (simp add: mismatchedArtifact_def)
qed

subsection \<open>C10: modules 5 and 7 read the same location\<close>


end
